theory Spec2Isabelle
  imports Complex_Main "HOL-Library.Sublist" "HOL-Library.Char_ord" "HOL-Library.List_Lexorder"
    "HOL-Library.AList"
begin

section \<open>JavaScript strings\<close>

text \<open>
  A JavaScript string is modelled as a \<^typ>\<open>string\<close>: a list of code units, here the
  code units below 256.  The string methods the services use are written out below.
  Case mapping is the mapping of the language on these code units: \<^verbatim>\<open>toLowerCase\<close> maps
  \<^verbatim>\<open>A-Z\<close> and the capital letters \<^verbatim>\<open>0xC0-0xDE\<close> (but not the multiplication sign
  \<^verbatim>\<open>0xD7\<close>) to the code unit 32 higher; \<^verbatim>\<open>toUpperCase\<close> and the case folding of the
  flag \<^verbatim>\<open>i\<close> of a regular expression map \<^verbatim>\<open>a-z\<close> and \<^verbatim>\<open>0xE0-0xFE\<close> (but not the
  division sign \<^verbatim>\<open>0xF7\<close>) to the code unit 32 lower.  Three small letters have no
  capital below 256: the sharp s \<^verbatim>\<open>0xDF\<close>, which \<^verbatim>\<open>toUpperCase\<close> turns into
  \<^verbatim>\<open>SS\<close> and case folding leaves alone, and \<^verbatim>\<open>0xFF\<close> and \<^verbatim>\<open>0xB5\<close>, whose capitals
  are code units above 255: no other code unit below 256 folds to them, so case folding
  may leave them alone, and \<^verbatim>\<open>toUpperCase\<close> is modelled as leaving them alone.
  Numbers that count denials or stamp a time are integers.
\<close>

definition str_includes :: "string \<Rightarrow> string \<Rightarrow> bool" where
  \<comment> \<open>\<^verbatim>\<open>s.includes(p)\<close>: \<open>p\<close> occurs in \<open>s\<close> as a contiguous run of code units\<close>
  "str_includes s p = sublist p s"

definition startsWith :: "string \<Rightarrow> string \<Rightarrow> bool" where
  "startsWith s p = prefix p s"

definition endsWith :: "string \<Rightarrow> string \<Rightarrow> bool" where
  "endsWith s p = suffix p s"

fun replace_first :: "string \<Rightarrow> string \<Rightarrow> string \<Rightarrow> string" where
  \<comment> \<open>\<^verbatim>\<open>s.replace(p, r)\<close> with a string pattern: only the first occurrence is replaced
      (\<open>r\<close> without the dollar sign, as everywhere in this program)\<close>
  "replace_first [] p r = (if p = [] then r else [])"
| "replace_first (c # cs) p r =
     (if prefix p (c # cs) then r @ drop (length p) (c # cs) else c # replace_first cs p r)"

definition lower_char :: "char \<Rightarrow> char" where
  \<comment> \<open>the small letter of a code unit\<close>
  "lower_char c =
     (if (CHR ''A'' \<le> c \<and> c \<le> CHR ''Z'') \<or> (CHR 0xC0 \<le> c \<and> c \<le> CHR 0xDE \<and> c \<noteq> CHR 0xD7)
      then char_of (of_char c + (32::nat)) else c)"

definition upper_char :: "char \<Rightarrow> char" where
  \<comment> \<open>the capital of a code unit, where it is a code unit below 256\<close>
  "upper_char c =
     (if (CHR ''a'' \<le> c \<and> c \<le> CHR ''z'') \<or> (CHR 0xE0 \<le> c \<and> c \<le> CHR 0xFE \<and> c \<noteq> CHR 0xF7)
      then char_of (of_char c - (32::nat)) else c)"

definition toLowerCase :: "string \<Rightarrow> string" where
  "toLowerCase s = map lower_char s"

definition toUpperCase :: "string \<Rightarrow> string" where
  "toUpperCase s = concat (map (\<lambda>c. if c = CHR 0xDF then ''SS'' else [upper_char c]) s)"

fun join :: "string \<Rightarrow> string list \<Rightarrow> string" where
  \<comment> \<open>\<^verbatim>\<open>xs.join(sep)\<close>\<close>
  "join sep [] = []"
| "join sep [x] = x"
| "join sep (x # y # ys) = x @ sep @ join sep (y # ys)"

text \<open>
  A \<^verbatim>\<open>Set\<close> of strings is the list of its members in insertion order; a \<^verbatim>\<open>Map\<close> with
  string keys is an association list in insertion order (\<^const>\<open>map_of\<close> is \<^verbatim>\<open>get\<close>,
  \<^const>\<open>AList.update\<close> is \<^verbatim>\<open>set\<close>: it overwrites in place or appends a new key).
\<close>

definition set_add :: "'a \<Rightarrow> 'a list \<Rightarrow> 'a list" where
  "set_add x s = (if x \<in> set s then s else s @ [x])"

definition new_Set :: "'a list \<Rightarrow> 'a list" where
  "new_Set xs = foldl (\<lambda>s x. set_add x s) [] xs"

fun insort_cmp :: "('a \<Rightarrow> 'a \<Rightarrow> int) \<Rightarrow> 'a \<Rightarrow> 'a list \<Rightarrow> 'a list" where
  "insort_cmp cmp x [] = [x]"
| "insort_cmp cmp x (y # ys) = (if cmp x y \<le> 0 then x # y # ys else y # insort_cmp cmp x ys)"

definition sort_cmp :: "('a \<Rightarrow> 'a \<Rightarrow> int) \<Rightarrow> 'a list \<Rightarrow> 'a list" where
  \<comment> \<open>\<^verbatim>\<open>xs.sort(cmp)\<close>: the stable sort of the language standard\<close>
  "sort_cmp cmp xs = foldr (insort_cmp cmp) xs []"

section \<open>Regular expressions\<close>

text \<open>
  The log parser works with regular expression literals.  The model holds, for each
  literal, its source text and flag and the syntax tree of the text; matching is the
  backtracking search of the language standard, written as the list of all ways a pattern
  can match at a position, in the order the search tries them (a greedy quantifier tries
  one more repetition before it tries to stop).  The first entry of the list is the match
  the search returns.  Under the flag \<^verbatim>\<open>i\<close> code units are compared after case folding.
\<close>

datatype cls_item =
    One char              \<comment> \<open>a single member of a class\<close>
  | Range char char       \<comment> \<open>a range \<^verbatim>\<open>a-z\<close>\<close>
  | Space                 \<comment> \<open>the white space escape\<close>

datatype re =
    Str string            \<comment> \<open>a run of literal characters\<close>
  | AnyChar               \<comment> \<open>the dot\<close>
  | Class bool "cls_item list"   \<comment> \<open>a class; \<open>True\<close> when it is negated\<close>
  | Seq re re
  | Alt re re
  | Star re               \<comment> \<open>greedy \<^verbatim>\<open>*\<close>\<close>
  | Plus re               \<comment> \<open>greedy \<^verbatim>\<open>+\<close>\<close>
  | Group nat re          \<comment> \<open>a capturing group and its number\<close>

record regex =
  source :: string
  ignoreCase :: bool
  body :: re

definition bs :: string where
  \<comment> \<open>the backslash\<close>
  "bs = [CHR 0x5C]"

definition is_space :: "char \<Rightarrow> bool" where
  \<comment> \<open>tab, line feed, vertical tab, form feed, carriage return, space, no-break space\<close>
  "is_space c \<longleftrightarrow> c \<in> set [CHR 0x09, CHR 0x0A, CHR 0x0B, CHR 0x0C, CHR 0x0D, CHR 0x20, CHR 0xA0]"

definition canon :: "bool \<Rightarrow> char \<Rightarrow> char" where
  \<comment> \<open>case folding under the flag \<^verbatim>\<open>i\<close>\<close>
  "canon i c = (if i then upper_char c else c)"

fun in_item :: "bool \<Rightarrow> char \<Rightarrow> cls_item \<Rightarrow> bool" where
  "in_item i c (One d) = (canon i c = canon i d)"
| "in_item i c (Range lo hi) =
     ((lo \<le> c \<and> c \<le> hi) \<or>
      (i \<and> ((lo \<le> upper_char c \<and> upper_char c \<le> hi) \<or>
             (lo \<le> lower_char c \<and> lower_char c \<le> hi))))"
| "in_item i c Space = is_space c"

fun str_match :: "bool \<Rightarrow> string \<Rightarrow> string \<Rightarrow> string option" where
  \<comment> \<open>the literal run at the head of the input: what is left after it\<close>
  "str_match i [] s = Some s"
| "str_match i (p # ps) [] = None"
| "str_match i (p # ps) (c # cs) = (if canon i c = canon i p then str_match i ps cs else None)"

fun re_size :: "re \<Rightarrow> nat" where
  "re_size (Str p) = 1"
| "re_size AnyChar = 1"
| "re_size (Class n items) = 1"
| "re_size (Seq a b) = re_size a + re_size b + 1"
| "re_size (Alt a b) = re_size a + re_size b + 1"
| "re_size (Star a) = re_size a + 1"
| "re_size (Plus a) = re_size a + 2"
| "re_size (Group n a) = re_size a + 1"

type_synonym captures = "(nat \<times> string) list"

function rmatch :: "bool \<Rightarrow> re \<Rightarrow> string \<times> captures \<Rightarrow> (string \<times> captures) list" where
  "rmatch i (Str p) st =
     (case str_match i p (fst st) of None \<Rightarrow> [] | Some rest \<Rightarrow> [(rest, snd st)])"
| "rmatch i AnyChar st =
     (case fst st of [] \<Rightarrow> []
      | c # cs \<Rightarrow> if c = CHR 0x0A \<or> c = CHR 0x0D then [] else [(cs, snd st)])"
| "rmatch i (Class neg items) st =
     (case fst st of [] \<Rightarrow> []
      | c # cs \<Rightarrow> if list_ex (in_item i c) items \<noteq> neg then [(cs, snd st)] else [])"
| "rmatch i (Seq a b) st = concat (map (rmatch i b) (rmatch i a st))"
| "rmatch i (Alt a b) st = rmatch i a st @ rmatch i b st"
| "rmatch i (Star a) st =
     concat (map (\<lambda>st'. if length (fst st') < length (fst st) then rmatch i (Star a) st' else [])
               (rmatch i a st)) @ [st]"
| "rmatch i (Plus a) st = concat (map (rmatch i (Star a)) (rmatch i a st))"
| "rmatch i (Group n a) st =
     map (\<lambda>st'. (fst st',
                 AList.update n (take (length (fst st) - length (fst st')) (fst st)) (snd st')))
       (rmatch i a st)"
  by pat_completeness auto
termination
  by (relation "measures [\<lambda>(i, r, st). re_size r, \<lambda>(i, r, st). length (fst st)]") auto

fun search :: "bool \<Rightarrow> re \<Rightarrow> string \<Rightarrow> (string \<times> captures) option" where
  \<comment> \<open>the leftmost match: the matched text and the groups\<close>
  "search i r [] =
     (case rmatch i r ([], []) of [] \<Rightarrow> None | st # _ \<Rightarrow> Some ([], snd st))"
| "search i r (c # cs) =
     (case rmatch i r (c # cs, []) of
        [] \<Rightarrow> search i r cs
      | st # _ \<Rightarrow> Some (take (length (c # cs) - length (fst st)) (c # cs), snd st))"

definition str_match_re :: "string \<Rightarrow> regex \<Rightarrow> (string \<times> captures) option" where
  \<comment> \<open>\<^verbatim>\<open>message.match(pattern)\<close> for a pattern without the flag \<^verbatim>\<open>g\<close>\<close>
  "str_match_re message pattern = search (ignoreCase pattern) (body pattern) message"

definition re_test :: "regex \<Rightarrow> string \<Rightarrow> bool" where
  \<comment> \<open>\<^verbatim>\<open>pattern.test(message)\<close>\<close>
  "re_test pattern message \<longleftrightarrow> str_match_re message pattern \<noteq> None"

definition group1 :: "(string \<times> captures) \<Rightarrow> string option" where
  \<comment> \<open>\<^verbatim>\<open>match[1]\<close>: absent when the first group took no part in the match\<close>
  "group1 m = map_of (snd m) 1"

section \<open>Data model\<close>

datatype severity = Low | Medium | High | Critical

text \<open>
  Values of type \<^verbatim>\<open>unknown\<close> and \<^verbatim>\<open>any\<close> are JSON values; a
  \<^verbatim>\<open>Record<string, unknown>\<close> is the property list of an object.
\<close>

datatype json = JNull | JBool bool | JNum real | JStr string | JArr "json list"
  | JObj "(string \<times> json) list"

type_synonym jsobject = "(string \<times> json) list"

record CloudFormationResource =
  logicalId :: string
  physicalId :: string
  resourceType :: string
  logGroups :: "string list"

text \<open>
  The fields \<open>action\<close>, \<open>resource\<close>, \<open>principal\<close> and \<open>errorCode\<close> of a denial are declared
  \<^verbatim>\<open>string\<close>; the log parser fills them from an \<^verbatim>\<open>any\<close> value, so the record is
  polymorphic in what they hold: \<^typ>\<open>json\<close> where the parser builds it, \<^typ>\<open>string\<close> where the
  analyzer reads it.
\<close>

record 'v PermissionDenial =
  timestamp :: string
  logGroup :: string
  logStream :: string
  message :: string
  action :: 'v
  resource :: 'v
  principal :: 'v
  errorCode :: 'v
  sourceIp :: "'v option"
  userAgent :: "'v option"

record LogAnalysisResult =
  logGroupName :: string
  associatedResource :: "CloudFormationResource option"
  permissionDenials :: "string PermissionDenial list"

record SuggestedPermission =
  action :: string
  resource :: string
  effect :: string
  condition :: "jsobject option"
  reasoning :: string
  frequency :: int
  severity :: severity

text \<open>The value type of \<^verbatim>\<open>permissionMap\<close> in \<^verbatim>\<open>analyzeLogs\<close>.\<close>

record candidate =
  action :: string
  frequency :: int
  resource :: string
  reasoning :: "string list"
  severity :: severity
  associatedResources :: "string list"

text \<open>The value type of \<^verbatim>\<open>statementMap\<close> in \<^verbatim>\<open>generateIAMPolicy\<close>.\<close>

record statement_group =
  actions :: "string list"
  resources :: "string list"
  condition :: "jsobject option"

record PolicyStatement =
  Effect :: string
  Action :: "string list"
  Resource :: "string list"
  Condition :: "jsobject option"

record PolicyDocument =
  Version :: string
  Statement :: "PolicyStatement list"

section \<open>PermissionAnalyzerService: aggregation\<close>

definition normalizeAction :: "string \<Rightarrow> string" where
  "normalizeAction a = toLowerCase a"

definition normalizeResource :: "string \<Rightarrow> string" where
  "normalizeResource r =
     (if startsWith r ''arn:aws:'' then r
      else if str_includes r ''/'' then ''arn:aws:*:*:*:'' @ r
      else r)"

definition calculateSeverity :: "string \<Rightarrow> string \<Rightarrow> int \<Rightarrow> severity" where
  "calculateSeverity a errCode totalDenials =
     (let lowerAction = toLowerCase a in
      if str_includes errCode ''AccessDenied'' \<and>
         (str_includes lowerAction ''lambda:invokefunction'' \<or>
          str_includes lowerAction ''dynamodb:'' \<or>
          str_includes lowerAction ''s3:getobject'')
        then Critical
      else if totalDenials > 10 \<or> str_includes errCode ''UnauthorizedOperation'' then High
      else if totalDenials > 3 \<or> str_includes lowerAction ''read'' \<or> str_includes lowerAction ''get''
        then Medium
      else Low)"

definition permissionKey :: "string PermissionDenial \<Rightarrow> string" where
  \<comment> \<open>the \<^verbatim>\<open>key\<close> of the loop body of \<^verbatim>\<open>analyzeLogs\<close>\<close>
  "permissionKey denial =
     normalizeAction (PermissionDenial.action denial) @ ''|||'' @
     normalizeResource (PermissionDenial.resource denial)"

definition mergeDenial ::
  "LogAnalysisResult \<Rightarrow> (string \<times> candidate) list \<Rightarrow> string PermissionDenial
    \<Rightarrow> (string \<times> candidate) list" where
  \<comment> \<open>the body of the inner loop of \<^verbatim>\<open>analyzeLogs\<close>, on the map it mutates\<close>
  "mergeDenial result permissionMap denial =
     (let a = normalizeAction (PermissionDenial.action denial);
          r = normalizeResource (PermissionDenial.resource denial);
          key = a @ ''|||'' @ r
      in case map_of permissionMap key of
           Some existing \<Rightarrow>
             AList.update key
               (existing\<lparr>candidate.frequency := candidate.frequency existing + 1,
                  candidate.reasoning := candidate.reasoning existing @
                    [''Additional denial in '' @ logGroupName result @ '': '' @ errorCode denial],
                  associatedResources :=
                    (case associatedResource result of
                       Some res \<Rightarrow> associatedResources existing @ [logicalId res]
                     | None \<Rightarrow> associatedResources existing)\<rparr>)
               permissionMap
         | None \<Rightarrow>
             AList.update key
               \<lparr>candidate.action = a,
                candidate.frequency = 1,
                candidate.resource = r,
                candidate.reasoning =
                  [''Permission denied in '' @ logGroupName result @ '': '' @ errorCode denial],
                candidate.severity =
                  calculateSeverity a (errorCode denial) (int (length (permissionDenials result))),
                associatedResources =
                  (case associatedResource result of Some res \<Rightarrow> [logicalId res] | None \<Rightarrow> [])\<rparr>
               permissionMap)"

definition buildPermissionMap :: "LogAnalysisResult list \<Rightarrow> (string \<times> candidate) list" where
  \<comment> \<open>the two nested loops of \<^verbatim>\<open>analyzeLogs\<close>, from the empty map\<close>
  "buildPermissionMap logAnalysisResults =
     foldl (\<lambda>m result. foldl (mergeDenial result) m (permissionDenials result)) [] logAnalysisResults"

definition generateConditions :: "string \<Rightarrow> string \<Rightarrow> string \<Rightarrow> jsobject option" where
  \<comment> \<open>\<open>now\<close> is \<^verbatim>\<open>new Date().toISOString()\<close>, the clock reading of the call\<close>
  "generateConditions now a r =
     (let conditions =
        (if str_includes a ''delete'' \<or> str_includes a ''put'' \<or> str_includes a ''create''
         then [(''DateGreaterThan'', JObj [(''aws:CurrentTime'', JStr now)])] else []) @
        (if str_includes r ''api'' \<or> str_includes r ''public''
         then [(''IpAddress'', JObj [(''aws:SourceIp'',
                 JArr [JStr ''10.0.0.0/8'', JStr ''172.16.0.0/12'', JStr ''192.168.0.0/16''])])]
         else []) @
        (if str_includes a ''delete'' \<or> str_includes a ''iam:'' \<or> str_includes a ''admin''
         then [(''Bool'', JObj [(''aws:MultiFactorAuthPresent'', JStr ''true'')])] else [])
      in if length conditions > 0 then Some conditions else None)"

definition consolidateReasoning :: "string list \<Rightarrow> string list \<Rightarrow> string" where
  "consolidateReasoning reasons assocs =
     (let uniqueReasons = new_Set reasons;
          consolidated = join ''; '' uniqueReasons
      in if length assocs > 0
         then consolidated @ ''. Associated with CloudFormation resources: '' @
              join '', '' (new_Set assocs)
         else consolidated)"

definition severityOrder :: "severity \<Rightarrow> int" where
  "severityOrder s = (case s of Critical \<Rightarrow> 4 | High \<Rightarrow> 3 | Medium \<Rightarrow> 2 | Low \<Rightarrow> 1)"

definition suggestionOrder :: "SuggestedPermission \<Rightarrow> SuggestedPermission \<Rightarrow> int" where
  \<comment> \<open>the comparator of the final sort of \<^verbatim>\<open>analyzeLogs\<close>\<close>
  "suggestionOrder a b =
     (let severityDiff = severityOrder (SuggestedPermission.severity b) -
                        severityOrder (SuggestedPermission.severity a)
      in if severityDiff \<noteq> 0 then severityDiff
         else SuggestedPermission.frequency b - SuggestedPermission.frequency a)"

definition analyzeLogs :: "string \<Rightarrow> LogAnalysisResult list \<Rightarrow> SuggestedPermission list" where
  "analyzeLogs now logAnalysisResults =
     (let permissionMap = buildPermissionMap logAnalysisResults;
          suggestions =
            map (\<lambda>(key, d).
                  \<lparr>SuggestedPermission.action =
                     (if candidate.action d = [] then ''Unknown'' else candidate.action d),
                   SuggestedPermission.resource = candidate.resource d,
                   effect = ''Allow'',
                   SuggestedPermission.condition =
                     generateConditions now (candidate.action d) (candidate.resource d),
                   SuggestedPermission.reasoning =
                     consolidateReasoning (candidate.reasoning d) (associatedResources d),
                   SuggestedPermission.frequency = candidate.frequency d,
                   SuggestedPermission.severity = candidate.severity d\<rparr>)
                permissionMap
      in sort_cmp suggestionOrder suggestions)"

section \<open>PermissionAnalyzerService: policy synthesis\<close>

definition addPermission ::
  "(json \<Rightarrow> string) \<Rightarrow> (string \<times> statement_group) list \<Rightarrow> SuggestedPermission
    \<Rightarrow> (string \<times> statement_group) list" where
  \<comment> \<open>the loop body of \<^verbatim>\<open>generateIAMPolicy\<close>; \<open>JSON_stringify\<close> is the runtime's
      \<^verbatim>\<open>JSON.stringify\<close>\<close>
  "addPermission JSON_stringify statementMap permission =
     (if SuggestedPermission.frequency permission = 0 \<and>
         SuggestedPermission.severity permission = Low
      then statementMap
      else
        let conditionKey =
              JSON_stringify
                (JObj (case SuggestedPermission.condition permission of Some c \<Rightarrow> c | None \<Rightarrow> []));
            key = SuggestedPermission.resource permission @ '':'' @ conditionKey
        in case map_of statementMap key of
             Some st \<Rightarrow>
               AList.update key
                 (st\<lparr>actions := set_add (SuggestedPermission.action permission) (actions st),
                     resources := set_add (SuggestedPermission.resource permission) (resources st)\<rparr>)
                 statementMap
           | None \<Rightarrow>
               AList.update key
                 \<lparr>actions = [SuggestedPermission.action permission],
                  resources = [SuggestedPermission.resource permission],
                  condition = SuggestedPermission.condition permission\<rparr>
                 statementMap)"

definition generateIAMPolicy :: "(json \<Rightarrow> string) \<Rightarrow> SuggestedPermission list \<Rightarrow> PolicyDocument" where
  "generateIAMPolicy JSON_stringify permissions =
     (let statementMap = foldl (addPermission JSON_stringify) [] permissions;
          statements =
            map (\<lambda>st.
                  \<lparr>Effect = ''Allow'',
                   Action = sort (actions st),
                   Resource = sort (resources st),
                   Condition =
                     (case statement_group.condition st of
                        Some c \<Rightarrow> if length c > 0 then Some c else None
                      | None \<Rightarrow> None)\<rparr>)
                (map snd statementMap)
      in \<lparr>Version = ''2012-10-17'', Statement = statements\<rparr>)"

section \<open>PermissionAnalyzerService: the ARN optimizer\<close>

definition optimizeResourceArn :: "string \<Rightarrow> string" where
  "optimizeResourceArn r =
     (if r = ''Unknown'' \<or> r = ''*'' then ''*''
      else if str_includes r ''arn:aws:s3:::'' \<and> \<not> str_includes r ''/*'' then r @ ''/*''
      else if str_includes r ''*''
        then (if str_includes r ''arn:aws:logs:'' \<and> endsWith r ''*''
              then (if str_includes r ''log-group:'' then r
                    else replace_first r ''*'' ''log-group:*'')
              else r)
      else r)"

section \<open>PermissionAnalyzerService: CDK code generation\<close>

text \<open>
  \<^verbatim>\<open>generateCDKCode\<close> collects lines and joins them with a line feed.  The model follows
  it line by line.  Two things are the runtime's and not this program's: the pretty printer
  \<^verbatim>\<open>JSON.stringify(c, null, 4)\<close>, taken as the parameter \<open>JSON_pretty\<close>, and object
  identity.  The \<^verbatim>\<open>conditions\<close> of a resource group are a \<^verbatim>\<open>Set\<close> of objects, which
  compares by identity; every permission is taken to carry an object of its own (as
  \<^verbatim>\<open>analyzeLogs\<close> produces them), so the set is the list of the conditions met.  The
  table of \<^verbatim>\<open>getServicePrincipal\<close> is read by its own keys only.
\<close>

definition sq :: string where
  \<comment> \<open>the single quote\<close>
  "sq = [CHR 0x27]"

function string_of_nat :: "nat \<Rightarrow> string" where
  \<comment> \<open>a loop counter inside a template literal\<close>
  "string_of_nat n =
     (if n < 10 then [char_of (48 + n)]
      else string_of_nat (n div 10) @ [char_of (48 + n mod 10)])"
  by pat_completeness auto
termination
  by (relation "measure (\<lambda>n. n)") auto

definition is_alnum :: "char \<Rightarrow> bool" where
  \<comment> \<open>the class \<^verbatim>\<open>[a-zA-Z0-9]\<close>\<close>
  "is_alnum c \<longleftrightarrow>
     (CHR ''a'' \<le> c \<and> c \<le> CHR ''z'') \<or> (CHR ''A'' \<le> c \<and> c \<le> CHR ''Z'') \<or>
     (CHR ''0'' \<le> c \<and> c \<le> CHR ''9'')"

record resource_group =
  actions :: "string list"
  resources :: "string list"
  conditions :: "jsobject list"

definition cdkHeader :: "string list" where
  "cdkHeader =
     [''// CDK TypeScript code generated by iam-scoped-permissions'',
      ''// Copy this code into your CDK application'',
      [],
      ''import * as iam from 'aws-cdk-lib/aws-iam';'',
      ''import * as cdk from 'aws-cdk-lib';'',
      ''import { Construct } from 'constructs';'',
      []]"

definition cdkInstructions :: "string list" where
  "cdkInstructions =
     [ [],
      ''// Instructions:'',
      ''// 1. Review the generated policies and adjust resource ARNs as needed'',
      ''// 2. Replace service principals with your actual compute resources'',
      ''// 3. Test thoroughly in a development environment'',
      ''// 4. Ensure resource ARNs are as specific as possible (avoid wildcards)'',
      ''// 5. Remove unused permissions after validation'',
      ''// 6. This code avoids managed policies to comply with cdk-nag AWS Solutions IAM4'']"

definition serviceOf :: "string \<Rightarrow> string" where
  \<comment> \<open>\<^verbatim>\<open>action.split(':')[0] || 'unknown'\<close>\<close>
  "serviceOf a =
     (let s = takeWhile (\<lambda>c. c \<noteq> CHR '':'') a in if s = [] then ''unknown'' else s)"

definition groupPermissionsByService ::
  "SuggestedPermission list \<Rightarrow> (string \<times> SuggestedPermission list) list" where
  "groupPermissionsByService permissions =
     foldl (\<lambda>groups permission.
              let service = serviceOf (SuggestedPermission.action permission)
              in case map_of groups service of
                   None \<Rightarrow> AList.update service [permission] groups
                 | Some ps \<Rightarrow> AList.update service (ps @ [permission]) groups)
       [] permissions"

definition getResourcePattern :: "string \<Rightarrow> string" where
  "getResourcePattern r =
     (if str_includes r ''arn:aws:s3:::'' then ''S3 Bucket Access''
      else if str_includes r ''arn:aws:dynamodb:'' then ''DynamoDB Table Access''
      else if str_includes r ''arn:aws:lambda:'' then ''Lambda Function Access''
      else if str_includes r ''arn:aws:logs:'' then ''CloudWatch Logs Access''
      else if str_includes r ''arn:aws:iam:'' then ''IAM Access''
      else if str_includes r ''arn:aws:ssm:'' then ''Systems Manager Access''
      else if str_includes r ''arn:aws:secretsmanager:'' then ''Secrets Manager Access''
      else if str_includes r ''arn:aws:kms:'' then ''KMS Access''
      else ''General AWS Access'')"

definition groupStatementsByResource ::
  "SuggestedPermission list \<Rightarrow> (string \<times> resource_group) list" where
  "groupStatementsByResource permissions =
     foldl (\<lambda>groups permission.
              let resourceKey = getResourcePattern (SuggestedPermission.resource permission);
                  g = (case map_of groups resourceKey of
                         None \<Rightarrow> \<lparr>resource_group.actions = [], resource_group.resources = [],
                                  conditions = []\<rparr>
                       | Some g0 \<Rightarrow> g0)
              in AList.update resourceKey
                   (g\<lparr>resource_group.actions :=
                        set_add (SuggestedPermission.action permission) (resource_group.actions g),
                      resource_group.resources :=
                        set_add (SuggestedPermission.resource permission)
                          (resource_group.resources g),
                      conditions :=
                        (case SuggestedPermission.condition permission of
                           Some c \<Rightarrow> conditions g @ [c]
                         | None \<Rightarrow> conditions g)\<rparr>)
                   groups)
       [] permissions"

definition generateRoleName :: "string \<Rightarrow> string \<Rightarrow> string" where
  "generateRoleName service stackName =
     (let cleanStackName = filter is_alnum stackName;
          cleanService = (case service of [] \<Rightarrow> [] | c # cs \<Rightarrow> toUpperCase [c] @ cs)
      in cleanStackName @ cleanService @ ''Role'')"

definition toCamelCase :: "string \<Rightarrow> string" where
  "toCamelCase str = (case str of [] \<Rightarrow> [] | c # cs \<Rightarrow> lower_char c # cs)"

definition getServicePrincipal :: "string \<Rightarrow> string" where
  "getServicePrincipal service =
     (case map_of
        [(''lambda'', ''lambda.amazonaws.com''),
         (''s3'', ''s3.amazonaws.com''),
         (''dynamodb'', ''dynamodb.amazonaws.com''),
         (''ecs'', ''ecs-tasks.amazonaws.com''),
         (''codebuild'', ''codebuild.amazonaws.com''),
         (''stepfunctions'', ''states.amazonaws.com''),
         (''apigateway'', ''apigateway.amazonaws.com''),
         (''logs'', ''logs.amazonaws.com''),
         (''ec2'', ''ec2.amazonaws.com''),
         (''iam'', ''iam.amazonaws.com'')] service of
        Some entry \<Rightarrow> entry
      | None \<Rightarrow> service @ ''.amazonaws.com'')"

definition indent_lines :: "string \<Rightarrow> string" where
  \<comment> \<open>\<^verbatim>\<open>s.replace(/^/gm, '    ')\<close>: four spaces at the start and after every line end\<close>
  "indent_lines s =
     ''    '' @ concat (map (\<lambda>c. if c = CHR 0x0A \<or> c = CHR 0x0D then c # ''    '' else [c]) s)"

definition statementLines ::
  "(json \<Rightarrow> string) \<Rightarrow> string \<Rightarrow> SuggestedPermission list \<Rightarrow> nat \<times> string \<times> resource_group
    \<Rightarrow> string list" where
  \<comment> \<open>the body of the inner loop of \<^verbatim>\<open>generateCDKCode\<close>: one policy statement\<close>
  "statementLines JSON_pretty roleName servicePermissions entry =
     (case entry of (statementIndex, resourcePattern, g) \<Rightarrow>
       let policyName = roleName @ ''Policy'' @ string_of_nat statementIndex;
           acts = resource_group.actions g;
           optimizedResources = sort (map optimizeResourceArn (resource_group.resources g));
           triggerReasons =
             take 3 (map SuggestedPermission.reasoning
               (filter (\<lambda>p. SuggestedPermission.action p \<in> set acts) servicePermissions))
       in
         [''// Policy '' @ string_of_nat statementIndex @ '' for '' @ resourcePattern,
          toCamelCase roleName @ ''.addToPolicy(new iam.PolicyStatement({'',
          ''  sid: '' @ sq @ policyName @ sq @ '','',
          ''  effect: iam.Effect.ALLOW,''] @
         (case acts of
            [a] \<Rightarrow> [''  actions: ['' @ sq @ a @ sq @ ''],'']
          | _ \<Rightarrow> [''  actions: [''] @ map (\<lambda>a. ''    '' @ sq @ a @ sq @ '','') (sort acts) @
                 [''  ],'']) @
         (case optimizedResources of
            [r] \<Rightarrow> [''  resources: ['' @ sq @ r @ sq @ ''],'']
          | _ \<Rightarrow> [''  resources: [''] @
                 map (\<lambda>r. ''    '' @ sq @ r @ sq @ '','') optimizedResources @ [''  ],'']) @
         (if length (conditions g) > 0
          then [''  conditions: {''] @
               map (\<lambda>c. ''    '' @ indent_lines (JSON_pretty (JObj c)) @ '','') (conditions g) @
               [''  },'']
          else []) @
         [''}));'', []] @
         (case triggerReasons of
            [] \<Rightarrow> []
          | [r] \<Rightarrow> [''// Triggered by: '' @ r, []]
          | r # rs \<Rightarrow>
              [''// Triggered by: '' @ r, ''// Additional reasons: '' @ join '', '' rs, []]))"

definition roleLines ::
  "(json \<Rightarrow> string) \<Rightarrow> string \<Rightarrow> nat \<times> string \<times> SuggestedPermission list \<Rightarrow> string list" where
  \<comment> \<open>the body of the outer loop of \<^verbatim>\<open>generateCDKCode\<close>: one role and its statements\<close>
  "roleLines JSON_pretty stackName entry =
     (case entry of (roleIndex, serviceName, servicePermissions) \<Rightarrow>
       let roleName = generateRoleName serviceName stackName;
           statementGroups = groupStatementsByResource servicePermissions
       in
         [''// Role '' @ string_of_nat roleIndex @ '': '' @ serviceName @ '' permissions'',
          ''const '' @ toCamelCase roleName @ '' = new iam.Role(this, '' @ sq @ roleName @ sq @
            '', {'',
          ''  assumedBy: new iam.ServicePrincipal('' @ sq @ getServicePrincipal serviceName @ sq @
            ''),'',
          ''  description: 'Role for '' @ serviceName @
            '' with least privilege permissions based on log analysis'' @ sq @ '','',
          ''});'',
          []] @
         concat (map (statementLines JSON_pretty roleName servicePermissions)
                   (List.enumerate 1 statementGroups)))"

definition generateCDKCode :: "(json \<Rightarrow> string) \<Rightarrow> SuggestedPermission list \<Rightarrow> string \<Rightarrow> string" where
  "generateCDKCode JSON_pretty permissions stackName =
     (let relevantPermissions =
            filter (\<lambda>p. SuggestedPermission.frequency p > 0 \<or>
                        SuggestedPermission.severity p = Critical \<or>
                        SuggestedPermission.severity p = High) permissions
      in if length relevantPermissions = 0
         then join ''\<newline>'' (cdkHeader @ [''// No permissions to generate - no issues found!''])
         else
           let serviceGroups = groupPermissionsByService relevantPermissions
           in join ''\<newline>''
                (cdkHeader @
                 [''// Add this to your CDK Stack class:'', []] @
                 concat (map (roleLines JSON_pretty stackName) (List.enumerate 1 serviceGroups)) @
                 cdkInstructions))"

section \<open>CloudWatchLogsService: the denial parser\<close>

text \<open>
  The pattern lists of the parser, each literal with its source text, its flag and its
  syntax tree.  No pattern has a group under a quantifier.
\<close>

fun cat :: "re list \<Rightarrow> re" where
  \<comment> \<open>a sequence of more than two parts\<close>
  "cat [] = Str []"
| "cat [r] = r"
| "cat (r # rs) = Seq r (cat rs)"

definition rx :: "string \<Rightarrow> bool \<Rightarrow> re \<Rightarrow> regex" where
  "rx s i b = \<lparr>source = s, ignoreCase = i, body = b\<rparr>"

definition space_cls :: re where
  "space_cls = Class False [Space]"

definition alnum_cls :: re where
  "alnum_cls = Class False [Range (CHR ''a'') (CHR ''z''), Range (CHR ''A'') (CHR ''Z''),
     Range (CHR ''0'') (CHR ''9'')]"

definition name_cls :: re where
  "name_cls = Class False [Range (CHR ''a'') (CHR ''z''), Range (CHR ''A'') (CHR ''Z''),
     Range (CHR ''0'') (CHR ''9''), One (CHR '':''), One (CHR ''_''), One (CHR ''-'')]"

definition not_space_comma :: re where
  "not_space_comma = Class True [Space, One (CHR '','')]"

definition not_colon_space :: re where
  "not_colon_space = Class True [One (CHR '':''), Space]"

definition denialPatterns :: "regex list" where
  "denialPatterns =
     [
      rx (''AccessDenied'') True
         (Str ''AccessDenied''),
      rx (''UnauthorizedOperation'') True
         (Str ''UnauthorizedOperation''),
      rx (''Forbidden'') True
         (Str ''Forbidden''),
      rx (''not authorized'') True
         (Str ''not authorized''),
      rx (''permission denied'') True
         (Str ''permission denied''),
      rx (''access denied'') True
         (Str ''access denied''),
      rx (''InvalidUserID'' @ bs @ ''.NotFound'') True
         (Str ''InvalidUserID.NotFound''),
      rx (''InvalidAction'') True
         (Str ''InvalidAction''),
      rx (''CredentialsNotFound'') True
         (Str ''CredentialsNotFound''),
      rx (''InvalidAccessKeyId'') True
         (Str ''InvalidAccessKeyId''),
      rx (''SignatureDoesNotMatch'') True
         (Str ''SignatureDoesNotMatch''),
      rx (''TokenRefreshRequired'') True
         (Str ''TokenRefreshRequired''),
      rx (''User is not authorized to perform'') True
         (Str ''User is not authorized to perform''),
      rx (''is not authorized to perform'') True
         (Str ''is not authorized to perform''),
      rx (''States'' @ bs @ ''.TaskFailed'') True
         (Str ''States.TaskFailed''),
      rx (''States'' @ bs @ ''.ExecutionFailed'') True
         (Str ''States.ExecutionFailed''),
      rx (''lambda:InvokeFunction'') True
         (Str ''lambda:InvokeFunction''),
      rx (''User: .* is not authorized to perform: lambda:InvokeFunction'') True
         (cat [Str ''User: '', Star AnyChar, Str
           '' is not authorized to perform: lambda:InvokeFunction'']),
      rx (''User: .* is not authorized to perform: sns:Publish'') True
         (cat [Str ''User: '', Star AnyChar, Str '' is not authorized to perform: sns:Publish'']),
      rx (''User: .* is not authorized to perform: sqs:SendMessage'') True
         (cat [Str ''User: '', Star AnyChar, Str
           '' is not authorized to perform: sqs:SendMessage'']),
      rx (''User: .* is not authorized to perform: dynamodb:'') True
         (cat [Str ''User: '', Star AnyChar, Str '' is not authorized to perform: dynamodb:'']),
      rx (''User: .* is not authorized to perform: s3:'') True
         (cat [Str ''User: '', Star AnyChar, Str '' is not authorized to perform: s3:'']),
      rx (''User: .* is not authorized to perform: kms:'') True
         (cat [Str ''User: '', Star AnyChar, Str '' is not authorized to perform: kms:''])]"

definition actionPatterns :: "regex list" where
  "actionPatterns =
     [
      rx (''perform:'' @ bs @ ''s*([a-zA-Z0-9:_-]+)'') True
         (cat [Str ''perform:'', Star space_cls, Group 1 (Plus name_cls)]),
      rx (''perform'' @ bs @ ''s+([a-zA-Z0-9:_-]+)'') True
         (cat [Str ''perform'', Plus space_cls, Group 1 (Plus name_cls)]),
      rx (''action'' @ bs @ ''s+([a-zA-Z0-9:_-]+)'') True
         (cat [Str ''action'', Plus space_cls, Group 1 (Plus name_cls)]),
      rx (''Action:'' @ bs @ ''s*([^'' @ bs @ ''s,]+)'') True
         (cat [Str ''Action:'', Star space_cls, Group 1 (Plus not_space_comma)]),
      rx (''Operation:'' @ bs @ ''s*([^'' @ bs @ ''s,]+)'') True
         (cat [Str ''Operation:'', Star space_cls, Group 1 (Plus not_space_comma)]),
      rx (''EventName:'' @ bs @ ''s*([^'' @ bs @ ''s,]+)'') True
         (cat [Str ''EventName:'', Star space_cls, Group 1 (Plus not_space_comma)]),
      rx (''([a-zA-Z0-9]+:[a-zA-Z0-9]+)'') False
         (Group 1 (cat [Plus alnum_cls, Str '':'', Plus alnum_cls]))]"

definition resourcePatterns :: "regex list" where
  "resourcePatterns =
     [
      rx (''on resource:'' @ bs @ ''s*(arn:aws:[^:'' @ bs @ ''s]+:[^:'' @ bs @ ''s]*:[^:'' @ bs @
        ''s]*:[^:'' @ bs @ ''s]+:[^'' @ bs @ ''s,]+)'') True
         (cat [Str ''on resource:'', Star space_cls, Group 1 (cat [Str ''arn:aws:'', Plus
           not_colon_space, Str '':'', Star not_colon_space, Str '':'', Star not_colon_space, Str
           '':'', Plus not_colon_space, Str '':'', Plus not_space_comma])]),
      rx (''resource:'' @ bs @ ''s*(arn:aws:[^:'' @ bs @ ''s]+:[^:'' @ bs @ ''s]*:[^:'' @ bs @
        ''s]*:[^:'' @ bs @ ''s]+:[^'' @ bs @ ''s,]+)'') True
         (cat [Str ''resource:'', Star space_cls, Group 1 (cat [Str ''arn:aws:'', Plus
           not_colon_space, Str '':'', Star not_colon_space, Str '':'', Star not_colon_space, Str
           '':'', Plus not_colon_space, Str '':'', Plus not_space_comma])]),
      rx (''on'' @ bs @ ''s+(arn:aws:[^:'' @ bs @ ''s]+:[^:'' @ bs @ ''s]*:[^:'' @ bs @
        ''s]*:[^:'' @ bs @ ''s]+:[^'' @ bs @ ''s,]+)'') True
         (cat [Str ''on'', Plus space_cls, Group 1 (cat [Str ''arn:aws:'', Plus not_colon_space,
           Str '':'', Star not_colon_space, Str '':'', Star not_colon_space, Str '':'', Plus
           not_colon_space, Str '':'', Plus not_space_comma])]),
      rx (''(arn:aws:[^:'' @ bs @ ''s]+:[^:'' @ bs @ ''s]*:[^:'' @ bs @ ''s]*:[^:'' @ bs @
        ''s]+:[^'' @ bs @ ''s,]+)'') True
         (Group 1 (cat [Str ''arn:aws:'', Plus not_colon_space, Str '':'', Star not_colon_space,
           Str '':'', Star not_colon_space, Str '':'', Plus not_colon_space, Str '':'', Plus
           not_space_comma])),
      rx (''on table'' @ bs @ ''s+([^'' @ bs @ ''s,]+)'') True
         (cat [Str ''on table'', Plus space_cls, Group 1 (Plus not_space_comma)]),
      rx (''table'' @ bs @ ''s+([^'' @ bs @ ''s,]+)'') True
         (cat [Str ''table'', Plus space_cls, Group 1 (Plus not_space_comma)]),
      rx (''Resource:'' @ bs @ ''s*([^'' @ bs @ ''s,]+)'') True
         (cat [Str ''Resource:'', Star space_cls, Group 1 (Plus not_space_comma)]),
      rx (''Bucket:'' @ bs @ ''s*([^'' @ bs @ ''s,]+)'') True
         (cat [Str ''Bucket:'', Star space_cls, Group 1 (Plus not_space_comma)]),
      rx (''Key:'' @ bs @ ''s*([^'' @ bs @ ''s,]+)'') True
         (cat [Str ''Key:'', Star space_cls, Group 1 (Plus not_space_comma)])]"

definition principalPatterns :: "regex list" where
  "principalPatterns =
     [
      rx (''User:'' @ bs @ ''s*(arn:aws:iam::[^:'' @ bs @ ''s]+:(user|role)'' @ bs @ ''/[^'' @ bs
        @ ''s,]+)'') True
         (cat [Str ''User:'', Star space_cls, Group 1 (cat [Str ''arn:aws:iam::'', Plus
           not_colon_space, Str '':'', Group 2 (Alt (Str ''user'') (Str ''role'')), Str ''/'',
           Plus not_space_comma])]),
      rx (''Principal'' @ bs @ ''s+(arn:aws:iam::[^:'' @ bs @ ''s]+:(user|role)'' @ bs @ ''/[^'' @
        bs @ ''s,]+)'') True
         (cat [Str ''Principal'', Plus space_cls, Group 1 (cat [Str ''arn:aws:iam::'', Plus
           not_colon_space, Str '':'', Group 2 (Alt (Str ''user'') (Str ''role'')), Str ''/'',
           Plus not_space_comma])]),
      rx (''(arn:aws:iam::[^:'' @ bs @ ''s]+:(user|role)'' @ bs @ ''/[^'' @ bs @ ''s,]+)'') True
         (Group 1 (cat [Str ''arn:aws:iam::'', Plus not_colon_space, Str '':'', Group 2 (Alt (Str
           ''user'') (Str ''role'')), Str ''/'', Plus not_space_comma])),
      rx (''for'' @ bs @ ''s+(role'' @ bs @ ''/[^'' @ bs @ ''s,]+)'') True
         (cat [Str ''for'', Plus space_cls, Group 1 (Seq (Str ''role/'') (Plus not_space_comma))]),
      rx (''User:'' @ bs @ ''s*([^'' @ bs @ ''s,]+)'') True
         (cat [Str ''User:'', Star space_cls, Group 1 (Plus not_space_comma)]),
      rx (''Role:'' @ bs @ ''s*([^'' @ bs @ ''s,]+)'') True
         (cat [Str ''Role:'', Star space_cls, Group 1 (Plus not_space_comma)]),
      rx (''Principal:'' @ bs @ ''s*([^'' @ bs @ ''s,]+)'') True
         (cat [Str ''Principal:'', Star space_cls, Group 1 (Plus not_space_comma)])]"

definition errorPatterns :: "regex list" where
  "errorPatterns =
     [
      rx (''ErrorCode:'' @ bs @ ''s*([^'' @ bs @ ''s,]+)'') True
         (cat [Str ''ErrorCode:'', Star space_cls, Group 1 (Plus not_space_comma)]),
      rx (''(AccessDenied)'') True
         (Group 1 (Str ''AccessDenied'')),
      rx (''(UnauthorizedOperation)'') True
         (Group 1 (Str ''UnauthorizedOperation'')),
      rx (''(Forbidden)'') True
         (Group 1 (Str ''Forbidden'')),
      rx (''(InvalidUserID'' @ bs @ ''.NotFound)'') True
         (Group 1 (Str ''InvalidUserID.NotFound'')),
      rx (''(InvalidAction)'') True
         (Group 1 (Str ''InvalidAction'')),
      rx (''(NoSuchBucket)'') True
         (Group 1 (Str ''NoSuchBucket'')),
      rx (''(NoSuchKey)'') True
         (Group 1 (Str ''NoSuchKey'')),
      rx (''(CredentialsNotFound)'') True
         (Group 1 (Str ''CredentialsNotFound'')),
      rx (''(InvalidAccessKeyId)'') True
         (Group 1 (Str ''InvalidAccessKeyId'')),
      rx (''(SignatureDoesNotMatch)'') True
         (Group 1 (Str ''SignatureDoesNotMatch'')),
      rx (''(TokenRefreshRequired)'') True
         (Group 1 (Str ''TokenRefreshRequired''))]"

definition hasPermissionDenialPattern :: "string \<Rightarrow> bool" where
  "hasPermissionDenialPattern msg = list_ex (\<lambda>pattern. re_test pattern msg) denialPatterns"

fun firstGroup :: "regex list \<Rightarrow> string \<Rightarrow> string option" where
  \<comment> \<open>the loop of \<^verbatim>\<open>extractActionFromText\<close> and \<^verbatim>\<open>extractPrincipalFromText\<close>: the first
      pattern that matches with a non-empty first group returns the group\<close>
  "firstGroup [] msg = None"
| "firstGroup (pattern # rest) msg =
     (case str_match_re msg pattern of
        None \<Rightarrow> firstGroup rest msg
      | Some m \<Rightarrow>
          (case group1 m of
             None \<Rightarrow> firstGroup rest msg
           | Some g \<Rightarrow> if g = [] then firstGroup rest msg else Some g))"

definition extractActionFromText :: "string \<Rightarrow> string" where
  "extractActionFromText msg =
     (case firstGroup actionPatterns msg of Some g \<Rightarrow> g | None \<Rightarrow> ''Unknown'')"

fun firstResource :: "regex list \<Rightarrow> string \<Rightarrow> string option" where
  \<comment> \<open>the loop of \<^verbatim>\<open>extractResourceFromText\<close>\<close>
  "firstResource [] msg = None"
| "firstResource (pattern # rest) msg =
     (case str_match_re msg pattern of
        None \<Rightarrow> firstResource rest msg
      | Some m \<Rightarrow>
          (case group1 m of
             None \<Rightarrow> firstResource rest msg
           | Some g \<Rightarrow>
               if g = [] then firstResource rest msg
               else if str_includes (source pattern) ''table'' \<and> \<not> startsWith g ''table ''
                 then Some (''table '' @ g)
               else Some g))"

definition extractResourceFromText :: "string \<Rightarrow> string" where
  "extractResourceFromText msg =
     (case firstResource resourcePatterns msg of Some g \<Rightarrow> g | None \<Rightarrow> ''Unknown'')"

definition extractPrincipalFromText :: "string \<Rightarrow> string" where
  "extractPrincipalFromText msg =
     (case firstGroup principalPatterns msg of Some g \<Rightarrow> g | None \<Rightarrow> ''Unknown'')"

fun firstError :: "regex list \<Rightarrow> string \<Rightarrow> string option" where
  \<comment> \<open>the loop of \<^verbatim>\<open>extractErrorCodeFromText\<close>: the first pattern that matches returns
      \<^verbatim>\<open>match[1] || match[0] || 'Unknown'\<close>\<close>
  "firstError [] msg = None"
| "firstError (pattern # rest) msg =
     (case str_match_re msg pattern of
        None \<Rightarrow> firstError rest msg
      | Some m \<Rightarrow>
          Some (case group1 m of
                  Some g \<Rightarrow> if g \<noteq> [] then g else if fst m \<noteq> [] then fst m else ''Unknown''
                | None \<Rightarrow> if fst m \<noteq> [] then fst m else ''Unknown''))"

definition extractErrorCodeFromText :: "string \<Rightarrow> string" where
  "extractErrorCodeFromText msg =
     (case firstError errorPatterns msg of
        Some code \<Rightarrow> code
      | None \<Rightarrow>
          if re_test (rx ''not authorized'' True (Str ''not authorized'')) msg \<or>
             re_test (rx ''access denied'' True (Str ''access denied'')) msg
          then ''AccessDenied''
          else ''Unknown'')"

text \<open>
  The structured path reads a value of type \<^verbatim>\<open>any\<close>.  \<open>None\<close> stands for
  \<^verbatim>\<open>undefined\<close>; a property read sees the own properties of an object and nothing on
  the other values (none of the names read is a member of a prototype).
\<close>

definition get_prop :: "json \<Rightarrow> string \<Rightarrow> json option" where
  \<comment> \<open>\<^verbatim>\<open>v.name\<close> on a value that is neither null nor undefined\<close>
  "get_prop v name = (case v of JObj kvs \<Rightarrow> map_of kvs name | _ \<Rightarrow> None)"

definition index0 :: "json \<Rightarrow> json option" where
  \<comment> \<open>\<^verbatim>\<open>v[0]\<close> on a value that is neither null nor undefined\<close>
  "index0 v =
     (case v of
        JArr xs \<Rightarrow> (case xs of [] \<Rightarrow> None | x # _ \<Rightarrow> Some x)
      | JStr s \<Rightarrow> (case s of [] \<Rightarrow> None | c # _ \<Rightarrow> Some (JStr [c]))
      | JObj kvs \<Rightarrow> map_of kvs ''0''
      | _ \<Rightarrow> None)"

definition chain :: "json option \<Rightarrow> (json \<Rightarrow> json option) \<Rightarrow> json option" where
  \<comment> \<open>optional chaining \<^verbatim>\<open>v?.\<close>: undefined on null and on undefined\<close>
  "chain v f = (case v of None \<Rightarrow> None | Some JNull \<Rightarrow> None | Some x \<Rightarrow> f x)"

definition truthy :: "json \<Rightarrow> bool" where
  "truthy v =
     (case v of
        JNull \<Rightarrow> False
      | JBool b \<Rightarrow> b
      | JNum x \<Rightarrow> x \<noteq> 0
      | JStr s \<Rightarrow> s \<noteq> []
      | JArr xs \<Rightarrow> True
      | JObj kvs \<Rightarrow> True)"

fun firstTruthy :: "json option list \<Rightarrow> json option" where
  \<comment> \<open>\<^verbatim>\<open>a || b || ... || undefined\<close>\<close>
  "firstTruthy [] = None"
| "firstTruthy (None # vs) = firstTruthy vs"
| "firstTruthy (Some v # vs) = (if truthy v then Some v else firstTruthy vs)"

definition orElse :: "json option \<Rightarrow> string \<Rightarrow> json" where
  \<comment> \<open>a chain that ends in a string constant\<close>
  "orElse v d = (case v of Some x \<Rightarrow> x | None \<Rightarrow> JStr d)"

definition extractAction :: "json \<Rightarrow> string \<Rightarrow> json" where
  "extractAction parsedMessage rawMessage =
     orElse (firstTruthy
       [get_prop parsedMessage ''eventName'',
        get_prop parsedMessage ''action'',
        get_prop parsedMessage ''operation'',
        Some (JStr (extractActionFromText rawMessage))]) ''Unknown''"

definition extractResource :: "json \<Rightarrow> string \<Rightarrow> json" where
  "extractResource parsedMessage rawMessage =
     orElse (firstTruthy
       [chain (chain (get_prop parsedMessage ''resources'') index0) (\<lambda>r. get_prop r ''ARN''),
        get_prop parsedMessage ''resourceARN'',
        get_prop parsedMessage ''resource'',
        get_prop parsedMessage ''bucketName'',
        get_prop parsedMessage ''key'',
        Some (JStr (extractResourceFromText rawMessage))]) ''Unknown''"

definition extractPrincipal :: "json \<Rightarrow> string \<Rightarrow> json" where
  "extractPrincipal parsedMessage rawMessage =
     orElse (firstTruthy
       [chain (get_prop parsedMessage ''userIdentity'') (\<lambda>u. get_prop u ''arn''),
        chain (get_prop parsedMessage ''userIdentity'') (\<lambda>u. get_prop u ''userName''),
        get_prop parsedMessage ''principal'',
        get_prop parsedMessage ''user'',
        Some (JStr (extractPrincipalFromText rawMessage))]) ''Unknown''"

definition extractErrorCode :: "json \<Rightarrow> string \<Rightarrow> json" where
  "extractErrorCode parsedMessage rawMessage =
     orElse (firstTruthy
       [get_prop parsedMessage ''errorCode'',
        get_prop parsedMessage ''errorMessage'',
        get_prop parsedMessage ''error'',
        Some (JStr (extractErrorCodeFromText rawMessage))]) ''Unknown''"

text \<open>
  What the runtime can throw inside \<^verbatim>\<open>parsePermissionDenial\<close>: \<^verbatim>\<open>JSON.parse\<close> on a text
  that is not JSON, a property read on \<^verbatim>\<open>null\<close>, and \<^verbatim>\<open>toISOString\<close> on a date whose
  time value is outside the range of \<^verbatim>\<open>Date\<close> (more than 8.64e15 milliseconds from the
  epoch).  \<^verbatim>\<open>JSON.parse\<close> and the formatting of a valid date are the runtime's: they are the
  parameters \<open>JSON_parse\<close> (\<open>None\<close> when it throws) and \<open>fmt\<close>.
\<close>

datatype exn = SyntaxError | TypeError | RangeError

record FilteredLogEvent =
  message :: "string option"
  timestamp :: "int option"
  logStreamName :: "string option"

definition Date_toISOString :: "(int \<Rightarrow> string) \<Rightarrow> int \<Rightarrow> exn + string" where
  \<comment> \<open>\<^verbatim>\<open>new Date(t).toISOString()\<close>\<close>
  "Date_toISOString fmt t =
     (if - 8640000000000000 \<le> t \<and> t \<le> 8640000000000000 then Inr (fmt t) else Inl RangeError)"

definition structuredDenial ::
  "(string \<Rightarrow> json option) \<Rightarrow> (int \<Rightarrow> string) \<Rightarrow> string \<Rightarrow> int \<Rightarrow> string \<Rightarrow> string
    \<Rightarrow> exn + json PermissionDenial" where
  \<comment> \<open>the \<^verbatim>\<open>try\<close> block of \<^verbatim>\<open>parsePermissionDenial\<close>\<close>
  "structuredDenial JSON_parse fmt msg ts stream groupName =
     (case JSON_parse msg of
        None \<Rightarrow> Inl SyntaxError
      | Some parsedMessage \<Rightarrow>
          (case Date_toISOString fmt ts of
             Inl e \<Rightarrow> Inl e
           | Inr t \<Rightarrow>
               if parsedMessage = JNull then Inl TypeError
               else Inr
                 \<lparr>PermissionDenial.timestamp = t,
                  logGroup = groupName,
                  logStream = (if stream = [] then ''unknown'' else stream),
                  PermissionDenial.message = msg,
                  PermissionDenial.action = extractAction parsedMessage msg,
                  PermissionDenial.resource = extractResource parsedMessage msg,
                  principal = extractPrincipal parsedMessage msg,
                  errorCode = extractErrorCode parsedMessage msg,
                  sourceIp =
                    firstTruthy [get_prop parsedMessage ''sourceIPAddress'', get_prop parsedMessage ''sourceIp''],
                  userAgent = firstTruthy [get_prop parsedMessage ''userAgent'']\<rparr>))"

definition textDenial ::
  "(int \<Rightarrow> string) \<Rightarrow> string \<Rightarrow> int \<Rightarrow> string \<Rightarrow> string \<Rightarrow> exn + json PermissionDenial" where
  \<comment> \<open>the \<^verbatim>\<open>catch\<close> block of \<^verbatim>\<open>parsePermissionDenial\<close>\<close>
  "textDenial fmt msg ts stream groupName =
     (case Date_toISOString fmt ts of
        Inl e \<Rightarrow> Inl e
      | Inr t \<Rightarrow>
          Inr
            \<lparr>PermissionDenial.timestamp = t,
             logGroup = groupName,
             logStream = (if stream = [] then ''unknown'' else stream),
             PermissionDenial.message = msg,
             PermissionDenial.action = JStr (extractActionFromText msg),
             PermissionDenial.resource = JStr (extractResourceFromText msg),
             principal = JStr (extractPrincipalFromText msg),
             errorCode = JStr (extractErrorCodeFromText msg),
             sourceIp = None,
             userAgent = None\<rparr>)"

definition parsePermissionDenial ::
  "(string \<Rightarrow> json option) \<Rightarrow> (int \<Rightarrow> string) \<Rightarrow> FilteredLogEvent \<Rightarrow> string
    \<Rightarrow> exn + json PermissionDenial option" where
  \<comment> \<open>\<open>Inl\<close>: the call throws; \<open>Inr None\<close>: it returns \<^verbatim>\<open>null\<close>\<close>
  "parsePermissionDenial JSON_parse fmt event groupName =
     (case (FilteredLogEvent.message event, FilteredLogEvent.timestamp event, logStreamName event) of
        (Some msg, Some ts, Some stream) \<Rightarrow>
          if msg = [] \<or> ts = 0 \<or> stream = [] then Inr None
          else if \<not> hasPermissionDenialPattern msg then Inr None
          else
            (case structuredDenial JSON_parse fmt msg ts stream groupName of
               Inr d \<Rightarrow> Inr (Some d)
             | Inl thrown \<Rightarrow>
                 (case textDenial fmt msg ts stream groupName of
                    Inr d \<Rightarrow> Inr (Some d)
                  | Inl e \<Rightarrow> Inl e))
      | _ \<Rightarrow> Inr None)"

section \<open>Reference description of the aggregation\<close>

text \<open>
  The loops of \<^verbatim>\<open>analyzeLogs\<close> visit the denials result by result.  \<open>denialsInOrder\<close> is
  that sequence of visits, each denial with the result it comes from, and
  \<open>expectedCandidate\<close> is the candidate that a sequence of visits to one key should leave in
  the map.  Both are used to state what \<open>buildPermissionMap\<close> computes; neither is part of
  the program.
\<close>

definition denialsInOrder ::
  "LogAnalysisResult list \<Rightarrow> (LogAnalysisResult \<times> string PermissionDenial) list" where
  "denialsInOrder logAnalysisResults =
     concat (map (\<lambda>result. map (Pair result) (permissionDenials result)) logAnalysisResults)"

definition firstReason :: "LogAnalysisResult \<times> string PermissionDenial \<Rightarrow> string" where
  "firstReason e = ''Permission denied in '' @ logGroupName (fst e) @ '': '' @ errorCode (snd e)"

definition laterReason :: "LogAnalysisResult \<times> string PermissionDenial \<Rightarrow> string" where
  "laterReason e = ''Additional denial in '' @ logGroupName (fst e) @ '': '' @ errorCode (snd e)"

definition resourceIds :: "LogAnalysisResult \<times> string PermissionDenial \<Rightarrow> string list" where
  "resourceIds e = (case associatedResource (fst e) of Some res \<Rightarrow> [logicalId res] | None \<Rightarrow> [])"

fun expectedCandidate ::
  "(LogAnalysisResult \<times> string PermissionDenial) list \<Rightarrow> candidate option" where
  "expectedCandidate [] = None"
| "expectedCandidate (e # es) =
     Some \<lparr>candidate.action = normalizeAction (PermissionDenial.action (snd e)),
           candidate.frequency = 1 + int (length es),
           candidate.resource = normalizeResource (PermissionDenial.resource (snd e)),
           candidate.reasoning = firstReason e # map laterReason es,
           candidate.severity =
             calculateSeverity (normalizeAction (PermissionDenial.action (snd e)))
               (errorCode (snd e)) (int (length (permissionDenials (fst e)))),
           associatedResources = concat (map resourceIds (e # es))\<rparr>"

section \<open>Facts about strings\<close>

text \<open>The two case mappings on the bits of a code unit, for evaluation.\<close>

lemma upper_char_bits [code]:
  "upper_char (Char b0 b1 b2 b3 b4 b5 b6 b7) =
     (if b5 \<and> b6 \<and>
         (if b7 then \<not> (b0 \<and> b1 \<and> b2 \<and> b4)
          else (b0 \<or> b1 \<or> b2 \<or> b3 \<or> b4) \<and> \<not> (b3 \<and> b4 \<and> (b2 \<or> (b0 \<and> b1))))
      then Char b0 b1 b2 b3 b4 False b6 b7 else Char b0 b1 b2 b3 b4 b5 b6 b7)"
  by (cases b0; cases b1; cases b2; cases b3; cases b4; cases b5; cases b6; cases b7;
      (simp add: upper_char_def char_of_def bit_iff_odd)?)

lemma lower_char_bits [code]:
  "lower_char (Char b0 b1 b2 b3 b4 b5 b6 b7) =
     (if \<not> b5 \<and> b6 \<and>
         (if b7 then \<not> (b0 \<and> b1 \<and> b2 \<and> b4)
          else (b0 \<or> b1 \<or> b2 \<or> b3 \<or> b4) \<and> \<not> (b3 \<and> b4 \<and> (b2 \<or> (b0 \<and> b1))))
      then Char b0 b1 b2 b3 b4 True b6 b7 else Char b0 b1 b2 b3 b4 b5 b6 b7)"
  by (cases b0; cases b1; cases b2; cases b3; cases b4; cases b5; cases b6; cases b7;
      (simp add: lower_char_def char_of_def bit_iff_odd)?)

text \<open>The case mappings at the ends of their ranges and at the code units they skip.\<close>

lemma lower_char_values:
  "map lower_char
     [CHR ''A'', CHR ''Z'', CHR ''@'', CHR ''['', CHR 0xC0, CHR 0xC9, CHR 0xD6, CHR 0xD7, CHR 0xD8,
      CHR 0xDE, CHR 0xDF, CHR 0xBF, CHR 0xE9] =
     [CHR ''a'', CHR ''z'', CHR ''@'', CHR ''['', CHR 0xE0, CHR 0xE9, CHR 0xF6, CHR 0xD7, CHR 0xF8,
      CHR 0xFE, CHR 0xDF, CHR 0xBF, CHR 0xE9]"
  by code_simp

lemma upper_char_values:
  "map upper_char
     [CHR ''a'', CHR ''z'', CHR 0x60, CHR ''{'', CHR 0xE0, CHR 0xE9, CHR 0xF6, CHR 0xF7, CHR 0xF8,
      CHR 0xFE, CHR 0xFF, CHR 0xDF, CHR 0xB5] =
     [CHR ''A'', CHR ''Z'', CHR 0x60, CHR ''{'', CHR 0xC0, CHR 0xC9, CHR 0xD6, CHR 0xF7, CHR 0xD8,
      CHR 0xDE, CHR 0xFF, CHR 0xDF, CHR 0xB5]"
  by code_simp

lemma replace_first_split:
  "c \<in> set s \<Longrightarrow> \<exists>pre post. s = pre @ [c] @ post \<and> c \<notin> set pre \<and> replace_first s [c] r = pre @ r @ post"
proof (induction s)
  case Nil then show ?case by simp
next
  case (Cons a s)
  show ?case
  proof (cases "a = c")
    case True
    then show ?thesis by (intro exI[of _ "[]"] exI[of _ s]) simp
  next
    case False
    with Cons obtain pre post where "s = pre @ [c] @ post" "c \<notin> set pre" "replace_first s [c] r = pre @ r @ post"
      by auto
    with False show ?thesis by (intro exI[of _ "a # pre"] exI[of _ post]) simp
  qed
qed

lemma sublist_append_tail:
  assumes "p \<noteq> []" "set p \<inter> set t = {}"
  shows "sublist p (r @ t) \<longleftrightarrow> sublist p r"
proof
  assume "sublist p (r @ t)"
  then consider "sublist p r" | "sublist p t" | xs1 xs2 where "p = xs1 @ xs2" "suffix xs1 r" "prefix xs2 t"
    by (auto simp: sublist_append)
  then show "sublist p r"
  proof cases
    case 1 then show ?thesis .
  next
    case 2
    then have "set p \<subseteq> set t" by (rule set_mono_sublist)
    with assms show ?thesis by (cases p) auto
  next
    case 3
    show ?thesis
    proof (cases xs2)
      case Nil with 3 show ?thesis by (simp add: suffix_imp_sublist)
    next
      case (Cons a as)
      with 3 have "a \<in> set p" "a \<in> set t" by (auto dest: set_mono_prefix)
      with assms show ?thesis by auto
    qed
  qed
next
  assume "sublist p r" then show "sublist p (r @ t)" by (auto simp: sublist_append)
qed

lemma sublist_skip:
  assumes "sublist p (u @ x # v)" "x \<notin> set p"
  shows "sublist p u \<or> sublist p v"
proof -
  from assms(1) consider "sublist p u" | "sublist p (x # v)"
    | xs1 xs2 where "p = xs1 @ xs2" "suffix xs1 u" "prefix xs2 (x # v)"
    by (auto simp: sublist_append)
  then show ?thesis
  proof cases
    case 1 then show ?thesis by simp
  next
    case 2
    then have "prefix p (x # v) \<or> sublist p v" by (simp add: sublist_Cons_right)
    with assms(2) show ?thesis by (cases p) auto
  next
    case 3
    show ?thesis
    proof (cases xs2)
      case Nil with 3 show ?thesis by (simp add: suffix_imp_sublist)
    next
      case (Cons b bs)
      with 3 have "b = x" "b \<in> set p" by auto
      with assms(2) show ?thesis by simp
    qed
  qed
qed

lemma sublist_insert:
  assumes "sublist p (pre @ (a # g) @ c # post)" "c \<notin> set p" "a \<notin> set p" "\<not> sublist p g"
  shows "sublist p (pre @ c # post)"
proof -
  from assms(1) have "sublist p (pre @ a # (g @ c # post))" by simp
  from sublist_skip[OF this assms(3)] have "sublist p pre \<or> sublist p (g @ c # post)" .
  moreover have "sublist p g \<or> sublist p post" if "sublist p (g @ c # post)"
    using sublist_skip[OF that assms(2)] .
  ultimately have "sublist p pre \<or> sublist p post" using assms(4) by blast
  then show ?thesis by (auto simp: sublist_append sublist_Cons_right)
qed

section \<open>The ARN optimizer\<close>

text \<open>
  C1 (as stated): \<open>optimizeResourceArn\<close> returns both \<open>"Unknown"\<close> and \<open>"*"\<close> unchanged.
  This fails for \<open>"Unknown"\<close>: the first branch returns the literal \<open>"*"\<close> for either input,
  so \<open>"Unknown"\<close> is not returned unchanged.
\<close>

theorem optimize_Unknown_changed:
  "optimizeResourceArn ''Unknown'' \<noteq> ''Unknown''"
  by (simp add: optimizeResourceArn_def)

text \<open>
  C1 (amended): \<open>optimizeResourceArn\<close> maps both \<open>"Unknown"\<close> and \<open>"*"\<close> to \<open>"*"\<close>; only
  \<open>"*"\<close> is returned unchanged.
\<close>

theorem optimize_Unknown_star:
  "optimizeResourceArn ''Unknown'' = ''*'' \<and> optimizeResourceArn ''*'' = ''*''"
  by (simp add: optimizeResourceArn_def)

lemma optimize_s3_branch:
  assumes "r \<noteq> ''Unknown''" "r \<noteq> ''*''" "str_includes r ''arn:aws:s3:::''" "\<not> str_includes r ''/*''"
  shows "optimizeResourceArn r = r @ ''/*''"
  using assms by (simp add: optimizeResourceArn_def)

lemma optimize_after_s3:
  assumes "\<not> str_includes r ''arn:aws:logs:'' \<or> str_includes r ''log-group:''"
  shows "optimizeResourceArn (r @ ''/*'') = r @ ''/*''"
proof -
  have "sublist ''arn:aws:logs:'' (r @ ''/*'') = sublist ''arn:aws:logs:'' r"
    by (rule sublist_append_tail) simp_all
  then have logs: "str_includes (r @ ''/*'') ''arn:aws:logs:'' = str_includes r ''arn:aws:logs:''"
    by (simp add: str_includes_def)
  have group: "str_includes (r @ ''/*'') ''log-group:''" if "str_includes r ''log-group:''"
    using that by (auto simp: str_includes_def sublist_append)
  have "str_includes (r @ ''/*'') ''/*''"
    by (simp add: str_includes_def)
  with assms logs group show ?thesis
    by (auto simp: optimizeResourceArn_def)
qed

lemma optimize_after_logs:
  assumes "\<not> str_includes r ''arn:aws:s3:::''" "str_includes r ''*''"
  shows "optimizeResourceArn (replace_first r ''*'' ''log-group:*'') = replace_first r ''*'' ''log-group:*''"
proof -
  from assms(2) have "CHR ''*'' \<in> set r"
    by (auto simp: str_includes_def dest: set_mono_sublist)
  from replace_first_split[OF this, of "''log-group:*''"] obtain pre post where
    r: "r = pre @ ''*'' @ post" and
    r': "replace_first r ''*'' ''log-group:*'' = pre @ ''log-group:*'' @ post"
    by blast
  let ?r' = "pre @ ''log-group:*'' @ post"
  have "\<not> sublist ''arn:aws:s3:::'' ?r'"
  proof
    assume "sublist ''arn:aws:s3:::'' ?r'"
    then have "sublist ''arn:aws:s3:::'' (pre @ (CHR ''l'' # ''og-group:'') @ CHR ''*'' # post)"
      by simp
    then have "sublist ''arn:aws:s3:::'' (pre @ CHR ''*'' # post)"
      by (rule sublist_insert) (simp_all add: sublist_code)
    with assms(1) r show False by (simp add: str_includes_def)
  qed
  then have 1: "\<not> str_includes ?r' ''arn:aws:s3:::''" by (simp add: str_includes_def)
  have "sublist ''log-group:'' (pre @ ''log-group:'' @ (''*'' @ post))"
    by (rule sublist_appendI)
  then have 2: "str_includes ?r' ''log-group:''"
    by (simp add: str_includes_def)
  have 3: "length ?r' \<ge> 11" by simp
  have 4: "?r' \<noteq> ''Unknown''" "?r' \<noteq> ''*''" using 3 by auto
  show ?thesis unfolding r' using 1 2 4 
    by (simp add: optimizeResourceArn_def)
qed

text \<open>
  C9 (as stated): \<open>optimizeResourceArn\<close> is idempotent on every resource string.  This fails
  on a string that holds both the S3 and the CloudWatch Logs ARN prefix: the first pass
  appends \<open>"/*"\<close> (S3 branch), and the second pass, now past the S3 branch, rewrites the
  new wildcard to \<open>"log-group:*"\<close> (Logs branch).
\<close>

theorem optimize_not_idempotent:
  "optimizeResourceArn ''arn:aws:s3:::bucket/arn:aws:logs:x'' =
     ''arn:aws:s3:::bucket/arn:aws:logs:x/*'' \<and>
   optimizeResourceArn (optimizeResourceArn ''arn:aws:s3:::bucket/arn:aws:logs:x'') =
     ''arn:aws:s3:::bucket/arn:aws:logs:x/log-group:*'' \<and>
   optimizeResourceArn (optimizeResourceArn ''arn:aws:s3:::bucket/arn:aws:logs:x'')
     \<noteq> optimizeResourceArn ''arn:aws:s3:::bucket/arn:aws:logs:x''"
  by code_simp

text \<open>
  C9 (amended): for every resource string, except those that contain both
  \<open>"arn:aws:s3:::"\<close> and \<open>"arn:aws:logs:"\<close> but not \<open>"log-group:"\<close>, optimizing twice gives
  the same string as optimizing once.
\<close>

theorem optimize_idempotent_amended:
  assumes "\<not> (str_includes r ''arn:aws:s3:::'' \<and> str_includes r ''arn:aws:logs:'' \<and>
              \<not> str_includes r ''log-group:'')"
  shows "optimizeResourceArn (optimizeResourceArn r) = optimizeResourceArn r"
proof (cases "r = ''Unknown'' \<or> r = ''*''")
  case True
  then show ?thesis by (auto simp: optimizeResourceArn_def)
next
  case plain: False
  show ?thesis
  proof (cases "str_includes r ''arn:aws:s3:::'' \<and> \<not> str_includes r ''/*''")
    case True
    with assms have "\<not> str_includes r ''arn:aws:logs:'' \<or> str_includes r ''log-group:''"
      by blast
    with True plain show ?thesis by (simp add: optimize_s3_branch optimize_after_s3)
  next
    case no_s3: False
    show ?thesis
    proof (cases "str_includes r ''*'' \<and> str_includes r ''arn:aws:logs:'' \<and> endsWith r ''*''
                  \<and> \<not> str_includes r ''log-group:''")
      case True
      with assms have n: "\<not> str_includes r ''arn:aws:s3:::''" by blast
      from True plain n have "optimizeResourceArn r = replace_first r ''*'' ''log-group:*''"
        by (simp add: optimizeResourceArn_def)
      with n True show ?thesis by (simp add: optimize_after_logs)
    next
      case False
      with plain no_s3 have "optimizeResourceArn r = r"
        by (auto simp: optimizeResourceArn_def)
      then show ?thesis by simp
    qed
  qed
qed

theorem optimize_idempotent_amended_witness:
  "\<not> (str_includes ''arn:aws:logs:us-east-1:123456789012:*'' ''arn:aws:s3:::'' \<and>
      str_includes ''arn:aws:logs:us-east-1:123456789012:*'' ''arn:aws:logs:'' \<and>
      \<not> str_includes ''arn:aws:logs:us-east-1:123456789012:*'' ''log-group:'')
   \<and> optimizeResourceArn ''arn:aws:logs:us-east-1:123456789012:*'' =
       ''arn:aws:logs:us-east-1:123456789012:log-group:*''
   \<and> optimizeResourceArn (optimizeResourceArn ''arn:aws:logs:us-east-1:123456789012:*'') =
       optimizeResourceArn ''arn:aws:logs:us-east-1:123456789012:*''"
proof -
  have h: "\<not> (str_includes ''arn:aws:logs:us-east-1:123456789012:*'' ''arn:aws:s3:::'' \<and>
      str_includes ''arn:aws:logs:us-east-1:123456789012:*'' ''arn:aws:logs:'' \<and>
      \<not> str_includes ''arn:aws:logs:us-east-1:123456789012:*'' ''log-group:'')"
    by code_simp
  have v: "optimizeResourceArn ''arn:aws:logs:us-east-1:123456789012:*'' =
             ''arn:aws:logs:us-east-1:123456789012:log-group:*''"
    by code_simp
  from h v optimize_idempotent_amended[OF h] show ?thesis by blast
qed

section \<open>Severity\<close>

lemma lower_lambda: "toLowerCase ''lambda:InvokeFunction'' = ''lambda:invokefunction''"
  by code_simp

text \<open>
  C5 (as stated): the severity is \<open>Critical\<close> if and only if the error code is
  \<open>AccessDenied\<close> and the action is one of the three kinds.  The code tests the error code
  for the substring \<open>AccessDenied\<close>, not for equality: the error code
  \<open>AccessDeniedException\<close> is not \<open>AccessDenied\<close> and is still rated \<open>Critical\<close>.
\<close>

theorem severity_Critical_substring_counterexample:
  "calculateSeverity ''s3:GetObject'' ''AccessDeniedException'' 1 = Critical
   \<and> ''AccessDeniedException'' \<noteq> ''AccessDenied''"
  by code_simp

text \<open>
  C5 (amended): for every action, error code and sibling count, the severity is \<open>Critical\<close>
  if and only if the error code contains \<open>AccessDenied\<close> and the lower-cased action
  contains \<open>lambda:invokefunction\<close>, \<open>dynamodb:\<close> or \<open>s3:getobject\<close>; in particular the
  action \<open>lambda:InvokeFunction\<close> with the error code \<open>AccessDenied\<close> is \<open>Critical\<close> for
  every sibling count.
\<close>

theorem severity_Critical_iff:
  "(calculateSeverity a e n = Critical \<longleftrightarrow>
      str_includes e ''AccessDenied'' \<and>
      (str_includes (toLowerCase a) ''lambda:invokefunction'' \<or>
       str_includes (toLowerCase a) ''dynamodb:'' \<or>
       str_includes (toLowerCase a) ''s3:getobject''))
   \<and> calculateSeverity ''lambda:InvokeFunction'' ''AccessDenied'' n = Critical"
proof
  show "calculateSeverity a e n = Critical \<longleftrightarrow>
      str_includes e ''AccessDenied'' \<and>
      (str_includes (toLowerCase a) ''lambda:invokefunction'' \<or>
       str_includes (toLowerCase a) ''dynamodb:'' \<or>
       str_includes (toLowerCase a) ''s3:getobject'')"
    by (simp add: calculateSeverity_def Let_def)
  have "str_includes ''AccessDenied'' ''AccessDenied''"
    by (simp add: str_includes_def)
  moreover have "str_includes (toLowerCase ''lambda:InvokeFunction'') ''lambda:invokefunction''"
    by (simp add: lower_lambda str_includes_def)
  ultimately show "calculateSeverity ''lambda:InvokeFunction'' ''AccessDenied'' n = Critical"
    by (simp add: calculateSeverity_def Let_def)
qed

section \<open>Aggregation\<close>

lemma buildPermissionMap_flat:
  "foldl (\<lambda>m result. foldl (mergeDenial result) m (permissionDenials result)) m0 rs =
   foldl (\<lambda>m e. mergeDenial (fst e) m (snd e)) m0
     (concat (map (\<lambda>result. map (Pair result) (permissionDenials result)) rs))"
proof (induction rs arbitrary: m0)
  case Nil
  show ?case by simp
next
  case (Cons r rs)
  have inner: "foldl (mergeDenial r) m ds = foldl (\<lambda>m e. mergeDenial (fst e) m (snd e)) m (map (Pair r) ds)"
    for m ds
    by (induction ds arbitrary: m) simp_all
  show ?case by (simp add: Cons.IH inner)
qed

lemma expectedCandidate_None [simp]: "expectedCandidate es = None \<longleftrightarrow> es = []"
  by (cases es) simp_all

lemma expectedCandidate_snoc:
  "expectedCandidate (es @ [e]) =
     (case expectedCandidate es of
        None \<Rightarrow> expectedCandidate [e]
      | Some c \<Rightarrow>
          Some (c\<lparr>candidate.frequency := candidate.frequency c + 1,
                  candidate.reasoning := candidate.reasoning c @ [laterReason e],
                  associatedResources := associatedResources c @ resourceIds e\<rparr>))"
  by (cases es) simp_all

lemma mergeDenial_lookup:
  assumes "map_of m = (\<lambda>k. expectedCandidate (filter (\<lambda>e. permissionKey (snd e) = k) es))"
  shows "map_of (mergeDenial r m d) =
         (\<lambda>k. expectedCandidate (filter (\<lambda>e. permissionKey (snd e) = k) (es @ [(r, d)])))"
proof
  fix k
  let ?k0 = "permissionKey d"
  let ?old = "filter (\<lambda>e. permissionKey (snd e) = ?k0) es"
  have old: "map_of m ?k0 = expectedCandidate ?old" using assms by simp
  show "map_of (mergeDenial r m d) k =
        expectedCandidate (filter (\<lambda>e. permissionKey (snd e) = k) (es @ [(r, d)]))"
  proof (cases "k = ?k0")
    case False
    then have "map_of (mergeDenial r m d) k = map_of m k"
      by (auto simp: mergeDenial_def permissionKey_def Let_def update_conv' split: option.splits)
    with False assms show ?thesis by simp
  next
    case True
    show ?thesis
    proof (cases "expectedCandidate ?old")
      case None
      with old have "map_of (mergeDenial r m d) ?k0 = expectedCandidate [(r, d)]"
        by (simp add: mergeDenial_def permissionKey_def Let_def update_conv' firstReason_def
            resourceIds_def split: option.splits)
      with None True show ?thesis by (simp add: expectedCandidate_snoc)
    next
      case (Some c)
      with old have "map_of (mergeDenial r m d) ?k0 =
          Some (c\<lparr>candidate.frequency := candidate.frequency c + 1,
                  candidate.reasoning := candidate.reasoning c @ [laterReason (r, d)],
                  associatedResources := associatedResources c @ resourceIds (r, d)\<rparr>)"
        by (simp add: mergeDenial_def permissionKey_def Let_def update_conv' laterReason_def
            resourceIds_def split: option.splits)
      with Some True show ?thesis by (simp add: expectedCandidate_snoc)
    qed
  qed
qed

lemma mergeDenial_distinct:
  "distinct (map fst m) \<Longrightarrow> distinct (map fst (mergeDenial r m d))"
  by (simp add: mergeDenial_def Let_def distinct_update split: option.splits)

lemma fold_invariant:
  "distinct (map fst (foldl (\<lambda>m e. mergeDenial (fst e) m (snd e)) [] es)) \<and>
   map_of (foldl (\<lambda>m e. mergeDenial (fst e) m (snd e)) [] es) =
     (\<lambda>k. expectedCandidate (filter (\<lambda>e. permissionKey (snd e) = k) es))"
proof (induction es rule: rev_induct)
  case Nil
  show ?case by auto
next
  case (snoc e es)
  obtain r d where e: "e = (r, d)" by (cases e)
  from snoc show ?case
    unfolding e by (simp add: mergeDenial_distinct mergeDenial_lookup)
qed

lemma buildPermissionMap_lookup:
  "map_of (buildPermissionMap rs) k =
     expectedCandidate (filter (\<lambda>e. permissionKey (snd e) = k) (denialsInOrder rs))"
  using fold_invariant[of "denialsInOrder rs"]
  by (simp add: buildPermissionMap_def buildPermissionMap_flat denialsInOrder_def)

lemma buildPermissionMap_distinct: "distinct (map fst (buildPermissionMap rs))"
  using fold_invariant[of "denialsInOrder rs"]
  by (simp add: buildPermissionMap_def buildPermissionMap_flat denialsInOrder_def)

lemma distinct_one_entry:
  "distinct (map fst m) \<Longrightarrow> map_of m k = Some v \<Longrightarrow> filter (\<lambda>kv. fst kv = k) m = [(k, v)]"
proof (induction m)
  case Nil then show ?case by simp
next
  case (Cons a m)
  obtain k' v' where a: "a = (k', v')" by (cases a)
  show ?case
  proof (cases "k' = k")
    case True
    with Cons.prems a have "v' = v" by simp
    moreover have "filter (\<lambda>kv. fst kv = k) m = []"
      using Cons.prems True a by (auto simp: filter_empty_conv)
    ultimately show ?thesis using True a by simp
  next
    case False
    with Cons a show ?thesis by simp
  qed
qed


text \<open>
  C2 (as stated): on a merge into an existing key only \<open>frequency\<close> and \<open>reasoning\<close> change.
  This fails when the log result of the merged denial has an associated CloudFormation
  resource: the merge also appends its logical id to \<open>associatedResources\<close>.  Below, the
  second result merges into the key of the first and the list grows from empty to one entry.
\<close>

theorem merge_changes_associatedResources:
  "map (\<lambda>kc. (fst kc, candidate.frequency (snd kc), associatedResources (snd kc)))
     (buildPermissionMap
        [\<lparr>logGroupName = ''/aws/lambda/a'', associatedResource = None,
          permissionDenials =
            [\<lparr>PermissionDenial.timestamp = ''2024-01-01T00:00:00Z'', logGroup = ''/aws/lambda/a'',
              logStream = ''s'', PermissionDenial.message = ''AccessDenied'',
              PermissionDenial.action = ''s3:GetObject'',
              PermissionDenial.resource = ''arn:aws:s3:::bucket/*'',
              principal = ''role/a'', errorCode = ''AccessDenied'',
              sourceIp = None, userAgent = None\<rparr>]\<rparr>])
     = [(''s3:getobject|||arn:aws:s3:::bucket/*'', 1, [])]
   \<and>
   map (\<lambda>kc. (fst kc, candidate.frequency (snd kc), associatedResources (snd kc)))
     (buildPermissionMap
        [\<lparr>logGroupName = ''/aws/lambda/a'', associatedResource = None,
          permissionDenials =
            [\<lparr>PermissionDenial.timestamp = ''2024-01-01T00:00:00Z'', logGroup = ''/aws/lambda/a'',
              logStream = ''s'', PermissionDenial.message = ''AccessDenied'',
              PermissionDenial.action = ''s3:GetObject'',
              PermissionDenial.resource = ''arn:aws:s3:::bucket/*'',
              principal = ''role/a'', errorCode = ''AccessDenied'',
              sourceIp = None, userAgent = None\<rparr>]\<rparr>,
         \<lparr>logGroupName = ''/aws/lambda/b'',
          associatedResource =
            Some \<lparr>logicalId = ''FunctionB'', physicalId = ''b'',
                  resourceType = ''AWS::Lambda::Function'', logGroups = [''/aws/lambda/b'']\<rparr>,
          permissionDenials =
            [\<lparr>PermissionDenial.timestamp = ''2024-01-01T00:00:01Z'', logGroup = ''/aws/lambda/b'',
              logStream = ''s'', PermissionDenial.message = ''AccessDenied'',
              PermissionDenial.action = ''s3:GetObject'',
              PermissionDenial.resource = ''arn:aws:s3:::bucket/*'',
              principal = ''role/b'', errorCode = ''AccessDenied'',
              sourceIp = None, userAgent = None\<rparr>]\<rparr>])
     = [(''s3:getobject|||arn:aws:s3:::bucket/*'', 2, [''FunctionB''])]"
  by code_simp

text \<open>
  C2 (amended): when a denial merges into an existing key, the candidate keeps its severity,
  action and resource; its frequency grows by one; one entry is appended to its reasoning;
  and the logical id of the result's associated resource, when there is one, is appended to
  \<open>associatedResources\<close>.  The candidates of the other keys and the order of the keys do not
  change.
\<close>

theorem merge_keeps_severity:
  assumes "map_of m (permissionKey d) = Some c"
  shows "(\<exists>c'. map_of (mergeDenial r m d) (permissionKey d) = Some c' \<and>
              candidate.severity c' = candidate.severity c \<and>
              candidate.action c' = candidate.action c \<and>
              candidate.resource c' = candidate.resource c \<and>
              candidate.frequency c' = candidate.frequency c + 1 \<and>
              candidate.reasoning c' = candidate.reasoning c @
                [''Additional denial in '' @ logGroupName r @ '': '' @ errorCode d] \<and>
              associatedResources c' = associatedResources c @
                (case associatedResource r of Some res \<Rightarrow> [logicalId res] | None \<Rightarrow> [])) \<and>
         (\<forall>k. k \<noteq> permissionKey d \<longrightarrow> map_of (mergeDenial r m d) k = map_of m k) \<and>
         map fst (mergeDenial r m d) = map fst m"
proof (intro conjI allI impI)
  show "\<exists>c'. map_of (mergeDenial r m d) (permissionKey d) = Some c' \<and>
              candidate.severity c' = candidate.severity c \<and>
              candidate.action c' = candidate.action c \<and>
              candidate.resource c' = candidate.resource c \<and>
              candidate.frequency c' = candidate.frequency c + 1 \<and>
              candidate.reasoning c' = candidate.reasoning c @
                [''Additional denial in '' @ logGroupName r @ '': '' @ errorCode d] \<and>
              associatedResources c' = associatedResources c @
                (case associatedResource r of Some res \<Rightarrow> [logicalId res] | None \<Rightarrow> [])"
    using assms
    by (auto simp: mergeDenial_def permissionKey_def Let_def update_conv' split: option.splits)
next
  fix k assume "k \<noteq> permissionKey d"
  then show "map_of (mergeDenial r m d) k = map_of m k"
    by (auto simp: mergeDenial_def permissionKey_def Let_def update_conv' split: option.splits)
next
  from assms have "permissionKey d \<in> fst ` set m"
    by (force dest: map_of_SomeD)
  then show "map fst (mergeDenial r m d) = map fst m"
    using assms
    by (auto simp: mergeDenial_def permissionKey_def Let_def update_keys split: option.splits)
qed

theorem merge_keeps_severity_witness:
  "map_of [(''s3:getobject|||arn:aws:s3:::bucket/*'',
            \<lparr>candidate.action = ''s3:getobject'', candidate.frequency = 1,
             candidate.resource = ''arn:aws:s3:::bucket/*'',
             candidate.reasoning = [''Permission denied in /aws/lambda/a: AccessDenied''],
             candidate.severity = Critical, associatedResources = []\<rparr>)]
     ''s3:getobject|||arn:aws:s3:::bucket/*''
   = Some \<lparr>candidate.action = ''s3:getobject'', candidate.frequency = 1,
             candidate.resource = ''arn:aws:s3:::bucket/*'',
             candidate.reasoning = [''Permission denied in /aws/lambda/a: AccessDenied''],
             candidate.severity = Critical, associatedResources = []\<rparr>
   \<and>
   (\<exists>c'. map_of
      (mergeDenial
         \<lparr>logGroupName = ''/aws/lambda/b'', associatedResource = None,
          permissionDenials = replicate 20
            \<lparr>PermissionDenial.timestamp = ''2024-01-01T00:00:01Z'', logGroup = ''/aws/lambda/b'',
             logStream = ''s'', PermissionDenial.message = ''not allowed'',
             PermissionDenial.action = ''s3:GetObject'',
             PermissionDenial.resource = ''arn:aws:s3:::bucket/*'',
             principal = ''role/b'', errorCode = ''Forbidden'', sourceIp = None, userAgent = None\<rparr>\<rparr>
         [(''s3:getobject|||arn:aws:s3:::bucket/*'',
            \<lparr>candidate.action = ''s3:getobject'', candidate.frequency = 1,
             candidate.resource = ''arn:aws:s3:::bucket/*'',
             candidate.reasoning = [''Permission denied in /aws/lambda/a: AccessDenied''],
             candidate.severity = Critical, associatedResources = []\<rparr>)]
         \<lparr>PermissionDenial.timestamp = ''2024-01-01T00:00:01Z'', logGroup = ''/aws/lambda/b'',
          logStream = ''s'', PermissionDenial.message = ''not allowed'',
          PermissionDenial.action = ''s3:GetObject'',
          PermissionDenial.resource = ''arn:aws:s3:::bucket/*'',
          principal = ''role/b'', errorCode = ''Forbidden'', sourceIp = None, userAgent = None\<rparr>)
      ''s3:getobject|||arn:aws:s3:::bucket/*'' = Some c' \<and>
      candidate.severity c' = Critical \<and> candidate.frequency c' = 2 \<and>
      candidate.reasoning c' =
        [''Permission denied in /aws/lambda/a: AccessDenied'',
         ''Additional denial in /aws/lambda/b: Forbidden''] \<and>
      associatedResources c' = [])"
proof -
  let ?d = "\<lparr>PermissionDenial.timestamp = ''2024-01-01T00:00:01Z'', logGroup = ''/aws/lambda/b'',
          logStream = ''s'', PermissionDenial.message = ''not allowed'',
          PermissionDenial.action = ''s3:GetObject'',
          PermissionDenial.resource = ''arn:aws:s3:::bucket/*'',
          principal = ''role/b'', errorCode = ''Forbidden'', sourceIp = None, userAgent = None\<rparr>"
  let ?c = "\<lparr>candidate.action = ''s3:getobject'', candidate.frequency = 1,
             candidate.resource = ''arn:aws:s3:::bucket/*'',
             candidate.reasoning = [''Permission denied in /aws/lambda/a: AccessDenied''],
             candidate.severity = Critical, associatedResources = []\<rparr>"
  let ?m = "[(''s3:getobject|||arn:aws:s3:::bucket/*'', ?c)]"
  let ?r = "\<lparr>logGroupName = ''/aws/lambda/b'', associatedResource = None,
          permissionDenials = replicate 20 ?d\<rparr>"
  have key: "permissionKey ?d = ''s3:getobject|||arn:aws:s3:::bucket/*''"
    by code_simp
  have h: "map_of ?m (permissionKey ?d) = Some ?c"
    unfolding key by simp
  from merge_keeps_severity[OF h, of ?r] obtain c' where
    "map_of (mergeDenial ?r ?m ?d) (permissionKey ?d) = Some c'"
    "candidate.severity c' = candidate.severity ?c"
    "candidate.frequency c' = candidate.frequency ?c + 1"
    "candidate.reasoning c' = candidate.reasoning ?c @
       [''Additional denial in '' @ logGroupName ?r @ '': '' @ errorCode ?d]"
    "associatedResources c' = associatedResources ?c @
       (case associatedResource ?r of Some res \<Rightarrow> [logicalId res] | None \<Rightarrow> [])"
    by blast
  then have "map_of (mergeDenial ?r ?m ?d) ''s3:getobject|||arn:aws:s3:::bucket/*'' = Some c' \<and>
      candidate.severity c' = Critical \<and> candidate.frequency c' = 2 \<and>
      candidate.reasoning c' =
        [''Permission denied in /aws/lambda/a: AccessDenied'',
         ''Additional denial in /aws/lambda/b: Forbidden''] \<and>
      associatedResources c' = []"
    unfolding key by simp
  then have "\<exists>c'. map_of (mergeDenial ?r ?m ?d) ''s3:getobject|||arn:aws:s3:::bucket/*'' = Some c' \<and>
      candidate.severity c' = Critical \<and> candidate.frequency c' = 2 \<and>
      candidate.reasoning c' =
        [''Permission denied in /aws/lambda/a: AccessDenied'',
         ''Additional denial in /aws/lambda/b: Forbidden''] \<and>
      associatedResources c' = []" ..
  moreover have "map_of ?m ''s3:getobject|||arn:aws:s3:::bucket/*'' = Some ?c" by simp
  ultimately show ?thesis by (rule conjI[rotated])
qed

text \<open>
  What holds for every batch is a statement about the key string the loop computes: when
  \<open>N > 0\<close> denials of the batch have the key string \<open>k\<close>, the map holds exactly one
  candidate under \<open>k\<close>, its frequency is \<open>N\<close>, and its reasoning list has \<open>N\<close> entries:
  the first-occurrence text of the first denial, then one entry per merged denial in the
  order of the visits, repeated strings included.
\<close>

lemma aggregate_same_key:
  assumes "evs = filter (\<lambda>e. permissionKey (snd e) = k) (denialsInOrder rs)" and "evs \<noteq> []"
  shows "\<exists>c. filter (\<lambda>kc. fst kc = k) (buildPermissionMap rs) = [(k, c)] \<and>
             candidate.frequency c = int (length evs) \<and>
             length (candidate.reasoning c) = length evs \<and>
             candidate.reasoning c = firstReason (hd evs) # map laterReason (tl evs)"
proof -
  from assms(2) obtain e es where evs: "evs = e # es" by (cases evs) auto
  then obtain c where c: "expectedCandidate evs = Some c" by simp
  have look: "map_of (buildPermissionMap rs) k = Some c"
    using buildPermissionMap_lookup[of rs k] assms(1) c by simp
  from distinct_one_entry[OF buildPermissionMap_distinct look]
  have "filter (\<lambda>kc. fst kc = k) (buildPermissionMap rs) = [(k, c)]" .
  moreover from c evs have "candidate.frequency c = int (length evs)"
    "candidate.reasoning c = firstReason (hd evs) # map laterReason (tl evs)"
    by auto
  ultimately show ?thesis using assms(2) by (auto simp: Suc_pred' length_greater_0_conv)
qed

lemma aggregate_same_key_example:
  "filter (\<lambda>e. permissionKey (snd e) = ''s3:getobject|||arn:aws:s3:::bucket/*'')
     (denialsInOrder
        [\<lparr>logGroupName = ''/aws/lambda/a'', associatedResource = None,
          permissionDenials = replicate 3
            \<lparr>PermissionDenial.timestamp = ''2024-01-01T00:00:00Z'', logGroup = ''/aws/lambda/a'',
             logStream = ''s'', PermissionDenial.message = ''AccessDenied'',
             PermissionDenial.action = ''s3:GetObject'',
             PermissionDenial.resource = ''arn:aws:s3:::bucket/*'',
             principal = ''role/a'', errorCode = ''AccessDenied'',
             sourceIp = None, userAgent = None\<rparr>\<rparr>]) \<noteq> []
   \<and>
   (\<exists>c. filter (\<lambda>kc. fst kc = ''s3:getobject|||arn:aws:s3:::bucket/*'')
          (buildPermissionMap
             [\<lparr>logGroupName = ''/aws/lambda/a'', associatedResource = None,
               permissionDenials = replicate 3
                 \<lparr>PermissionDenial.timestamp = ''2024-01-01T00:00:00Z'', logGroup = ''/aws/lambda/a'',
                  logStream = ''s'', PermissionDenial.message = ''AccessDenied'',
                  PermissionDenial.action = ''s3:GetObject'',
                  PermissionDenial.resource = ''arn:aws:s3:::bucket/*'',
                  principal = ''role/a'', errorCode = ''AccessDenied'',
                  sourceIp = None, userAgent = None\<rparr>\<rparr>])
        = [(''s3:getobject|||arn:aws:s3:::bucket/*'', c)] \<and>
        candidate.frequency c = 3 \<and>
        length (candidate.reasoning c) = 3 \<and>
        candidate.reasoning c =
          [''Permission denied in /aws/lambda/a: AccessDenied'',
           ''Additional denial in /aws/lambda/a: AccessDenied'',
           ''Additional denial in /aws/lambda/a: AccessDenied''])"
proof -
  define d :: "string PermissionDenial" where
    "d = \<lparr>PermissionDenial.timestamp = ''2024-01-01T00:00:00Z'', logGroup = ''/aws/lambda/a'',
             logStream = ''s'', PermissionDenial.message = ''AccessDenied'',
             PermissionDenial.action = ''s3:GetObject'',
             PermissionDenial.resource = ''arn:aws:s3:::bucket/*'',
             principal = ''role/a'', errorCode = ''AccessDenied'',
             sourceIp = None, userAgent = None\<rparr>"
  define r where
    "r = \<lparr>logGroupName = ''/aws/lambda/a'', associatedResource = None,
          permissionDenials = replicate 3 d\<rparr>"
  let ?k = "''s3:getobject|||arn:aws:s3:::bucket/*''"
  have key: "permissionKey d = ?k" unfolding d_def by code_simp
  have r: "logGroupName r = ''/aws/lambda/a''" "permissionDenials r = [d, d, d]"
    by (simp_all add: r_def numeral_3_eq_3)
  have d: "errorCode d = ''AccessDenied''" by (simp add: d_def)
  have evs: "filter (\<lambda>e. permissionKey (snd e) = ?k) (denialsInOrder [r]) = [(r, d), (r, d), (r, d)]"
    by (simp add: denialsInOrder_def r(2) key)
  have ne: "filter (\<lambda>e. permissionKey (snd e) = ?k) (denialsInOrder [r]) \<noteq> []"
    unfolding evs by simp
  from aggregate_same_key[OF refl ne] obtain c where c:
    "filter (\<lambda>kc. fst kc = ?k) (buildPermissionMap [r]) = [(?k, c)]"
    "candidate.frequency c =
       int (length (filter (\<lambda>e. permissionKey (snd e) = ?k) (denialsInOrder [r])))"
    "length (candidate.reasoning c) =
       length (filter (\<lambda>e. permissionKey (snd e) = ?k) (denialsInOrder [r]))"
    "candidate.reasoning c =
       firstReason (hd (filter (\<lambda>e. permissionKey (snd e) = ?k) (denialsInOrder [r]))) #
       map laterReason (tl (filter (\<lambda>e. permissionKey (snd e) = ?k) (denialsInOrder [r])))"
    by blast
  have "candidate.frequency c = 3" "length (candidate.reasoning c) = 3"
    using c(2,3) unfolding evs by simp_all
  moreover have "candidate.reasoning c =
          [''Permission denied in /aws/lambda/a: AccessDenied'',
           ''Additional denial in /aws/lambda/a: AccessDenied'',
           ''Additional denial in /aws/lambda/a: AccessDenied'']"
    using c(4) unfolding evs by (simp add: firstReason_def laterReason_def r(1) d)
  ultimately have "\<exists>c. filter (\<lambda>kc. fst kc = ?k) (buildPermissionMap [r]) = [(?k, c)] \<and>
        candidate.frequency c = 3 \<and>
        length (candidate.reasoning c) = 3 \<and>
        candidate.reasoning c =
          [''Permission denied in /aws/lambda/a: AccessDenied'',
           ''Additional denial in /aws/lambda/a: AccessDenied'',
           ''Additional denial in /aws/lambda/a: AccessDenied'']"
    using c(1) by blast
  with ne show ?thesis unfolding r_def d_def by (rule conjI)
qed

text \<open>
  The key string is the normalized action, the separator \<open>|||\<close> and the normalized
  resource, and the comment on that line calls the separator unique.  It is not: two
  different pairs give one string when the separator occurs inside an action or a
  resource.  The text extractors of the parser deliver such fields.
\<close>

lemma collision_input_reachable:
  "extractActionFromText ''AccessDenied Action: a|||b Resource: c'' = ''a|||b'' \<and>
   extractResourceFromText ''AccessDenied Action: a|||b Resource: c'' = ''c'' \<and>
   extractActionFromText ''AccessDenied Action: a Resource: b|||c'' = ''a'' \<and>
   extractResourceFromText ''AccessDenied Action: a Resource: b|||c'' = ''b|||c''"
  by code_simp

text \<open>
  C3: \<open>N\<close> denials that normalize to the same (action, resource) pair should give one
  candidate for that pair with frequency \<open>N\<close> and \<open>N\<close> reasoning entries.  In the batch
  below one denial has the pair \<open>(a|||b, c)\<close> and one has the pair \<open>(a, b|||c)\<close>; the pairs
  differ, and the map holds a single candidate, with the action and resource of the first
  pair, frequency 2 and two reasoning entries, and no candidate for the second pair.
\<close>

theorem aggregate_key_collision:
  "(normalizeAction ''a|||b'', normalizeResource ''c'') \<noteq>
     (normalizeAction ''a'', normalizeResource ''b|||c'') \<and>
   length (filter (\<lambda>d. normalizeAction (PermissionDenial.action d) = ''a|||b'' \<and>
                       normalizeResource (PermissionDenial.resource d) = ''c'')
     [\<lparr>PermissionDenial.timestamp = ''2024-01-01T00:00:00.000Z'', logGroup = ''/aws/lambda/f'',
       logStream = ''s'', PermissionDenial.message = ''AccessDenied Action: a|||b Resource: c'',
       PermissionDenial.action = ''a|||b'', PermissionDenial.resource = ''c'',
       principal = ''Unknown'', errorCode = ''AccessDenied'', sourceIp = None, userAgent = None\<rparr>,
      \<lparr>PermissionDenial.timestamp = ''2024-01-01T00:00:01.000Z'', logGroup = ''/aws/lambda/f'',
       logStream = ''s'', PermissionDenial.message = ''AccessDenied Action: a Resource: b|||c'',
       PermissionDenial.action = ''a'', PermissionDenial.resource = ''b|||c'',
       principal = ''Unknown'', errorCode = ''AccessDenied'', sourceIp = None, userAgent = None\<rparr>])
     = 1 \<and>
   map (\<lambda>kc. (fst kc, candidate.action (snd kc), candidate.resource (snd kc),
               candidate.frequency (snd kc), candidate.reasoning (snd kc)))
     (buildPermissionMap
       [\<lparr>logGroupName = ''/aws/lambda/f'', associatedResource = None,
         permissionDenials =
           [\<lparr>PermissionDenial.timestamp = ''2024-01-01T00:00:00.000Z'', logGroup = ''/aws/lambda/f'',
             logStream = ''s'', PermissionDenial.message = ''AccessDenied Action: a|||b Resource: c'',
             PermissionDenial.action = ''a|||b'', PermissionDenial.resource = ''c'',
             principal = ''Unknown'', errorCode = ''AccessDenied'', sourceIp = None, userAgent = None\<rparr>,
            \<lparr>PermissionDenial.timestamp = ''2024-01-01T00:00:01.000Z'', logGroup = ''/aws/lambda/f'',
             logStream = ''s'', PermissionDenial.message = ''AccessDenied Action: a Resource: b|||c'',
             PermissionDenial.action = ''a'', PermissionDenial.resource = ''b|||c'',
             principal = ''Unknown'', errorCode = ''AccessDenied'', sourceIp = None, userAgent = None\<rparr>]\<rparr>])
     = [(''a|||b|||c'', ''a|||b'', ''c'', 2,
         [''Permission denied in /aws/lambda/f: AccessDenied'',
          ''Additional denial in /aws/lambda/f: AccessDenied''])]"
  by code_simp

section \<open>Policy synthesis\<close>

lemma set_set_add [simp]: "set (set_add x s) = insert x (set s)"
  by (auto simp: set_add_def)

lemma addPermission_dropped:
  "SuggestedPermission.frequency p = 0 \<and> SuggestedPermission.severity p = Low \<Longrightarrow>
   addPermission js m p = m"
  by (simp add: addPermission_def)

lemma foldl_addPermission_filter:
  "foldl (addPermission js) m ps =
   foldl (addPermission js) m
     (filter (\<lambda>p. \<not> (SuggestedPermission.frequency p = 0 \<and> SuggestedPermission.severity p = Low)) ps)"
  by (induction ps arbitrary: m) (simp_all add: addPermission_dropped)

lemma addPermission_cases:
  "addPermission js m p = m \<or>
   (\<exists>key st. map_of m key = Some st \<and>
      addPermission js m p = AList.update key
        (st\<lparr>statement_group.actions :=
              set_add (SuggestedPermission.action p) (statement_group.actions st),
            statement_group.resources :=
              set_add (SuggestedPermission.resource p) (statement_group.resources st)\<rparr>) m) \<or>
   (\<exists>key. addPermission js m p = AList.update key
        \<lparr>statement_group.actions = [SuggestedPermission.action p],
         statement_group.resources = [SuggestedPermission.resource p],
         statement_group.condition = SuggestedPermission.condition p\<rparr> m)"
  by (auto simp: addPermission_def Let_def split: option.splits)

lemma snd_update_cases:
  "g \<in> snd ` set (AList.update k v m) \<Longrightarrow> g = v \<or> g \<in> snd ` set m"
  by (induction m) (auto split: if_splits)

lemma grants_step:
  assumes inv: "\<And>g. g \<in> snd ` set m \<Longrightarrow> set (statement_group.actions g) \<subseteq> A \<and>
                  set (statement_group.resources g) \<subseteq> R"
    and p: "SuggestedPermission.action p \<in> A" "SuggestedPermission.resource p \<in> R"
    and g: "g \<in> snd ` set (addPermission js m p)"
  shows "set (statement_group.actions g) \<subseteq> A \<and> set (statement_group.resources g) \<subseteq> R"
proof -
  from addPermission_cases[of js m p] consider
      (skip) "addPermission js m p = m"
    | (merge) key st where "map_of m key = Some st"
        "addPermission js m p = AList.update key
          (st\<lparr>statement_group.actions :=
                set_add (SuggestedPermission.action p) (statement_group.actions st),
              statement_group.resources :=
                set_add (SuggestedPermission.resource p) (statement_group.resources st)\<rparr>) m"
    | (new) key where "addPermission js m p = AList.update key
          \<lparr>statement_group.actions = [SuggestedPermission.action p],
           statement_group.resources = [SuggestedPermission.resource p],
           statement_group.condition = SuggestedPermission.condition p\<rparr> m"
    by blast
  then show ?thesis
  proof cases
    case skip
    with inv g show ?thesis by simp
  next
    case merge
    from merge(1) have "(key, st) \<in> set m" by (rule map_of_SomeD)
    then have "st \<in> snd ` set m" by force
    then have st: "set (statement_group.actions st) \<subseteq> A" "set (statement_group.resources st) \<subseteq> R"
      using inv by blast+
    from g merge(2) snd_update_cases[of g key _ m] consider
      "g = st\<lparr>statement_group.actions :=
                set_add (SuggestedPermission.action p) (statement_group.actions st),
              statement_group.resources :=
                set_add (SuggestedPermission.resource p) (statement_group.resources st)\<rparr>"
      | "g \<in> snd ` set m" by auto
    then show ?thesis
    proof cases
      case 1
      with st p show ?thesis by simp
    next
      case 2
      with inv show ?thesis by blast
    qed
  next
    case new
    from g new snd_update_cases[of g key _ m] consider
      "g = \<lparr>statement_group.actions = [SuggestedPermission.action p],
           statement_group.resources = [SuggestedPermission.resource p],
           statement_group.condition = SuggestedPermission.condition p\<rparr>"
      | "g \<in> snd ` set m" by auto
    then show ?thesis
    proof cases
      case 1
      with p show ?thesis by simp
    next
      case 2
      with inv show ?thesis by blast
    qed
  qed
qed

lemma grants_foldl:
  assumes "\<And>g. g \<in> snd ` set m \<Longrightarrow> set (statement_group.actions g) \<subseteq> A \<and>
             set (statement_group.resources g) \<subseteq> R"
    and "SuggestedPermission.action ` set ps \<subseteq> A" "SuggestedPermission.resource ` set ps \<subseteq> R"
    and "g \<in> snd ` set (foldl (addPermission js) m ps)"
  shows "set (statement_group.actions g) \<subseteq> A \<and> set (statement_group.resources g) \<subseteq> R"
  using assms
proof (induction ps arbitrary: m)
  case Nil
  then show ?case by simp
next
  case (Cons p ps)
  have pA: "SuggestedPermission.action p \<in> A" and pR: "SuggestedPermission.resource p \<in> R"
    using Cons.prems(2,3) by auto
  have step: "set (statement_group.actions h) \<subseteq> A \<and> set (statement_group.resources h) \<subseteq> R"
    if "h \<in> snd ` set (addPermission js m p)" for h
    using Cons.prems(1) pA pR that by (rule grants_step)
  have rest: "SuggestedPermission.action ` set ps \<subseteq> A" "SuggestedPermission.resource ` set ps \<subseteq> R"
    using Cons.prems(2,3) by auto
  from Cons.prems(4) have "g \<in> snd ` set (foldl (addPermission js) (addPermission js m p) ps)"
    by simp
  with Cons.IH[of "addPermission js m p"] step rest show ?case by blast
qed

lemma addPermission_keeps:
  assumes "map_of m key = Some g"
  shows "\<exists>g'. map_of (addPermission js m p) key = Some g' \<and>
              set (statement_group.actions g) \<subseteq> set (statement_group.actions g') \<and>
              set (statement_group.resources g) \<subseteq> set (statement_group.resources g')"
  using assms
  by (auto simp: addPermission_def Let_def update_conv' split: option.splits)

lemma foldl_addPermission_keeps:
  assumes "map_of m key = Some g"
  shows "\<exists>g'. map_of (foldl (addPermission js) m ps) key = Some g' \<and>
              set (statement_group.actions g) \<subseteq> set (statement_group.actions g') \<and>
              set (statement_group.resources g) \<subseteq> set (statement_group.resources g')"
  using assms
proof (induction ps arbitrary: m g)
  case Nil
  then show ?case by simp
next
  case (Cons p ps)
  from addPermission_keeps[OF Cons.prems, of js p] obtain g1 where
    g1: "map_of (addPermission js m p) key = Some g1"
      "set (statement_group.actions g) \<subseteq> set (statement_group.actions g1)"
      "set (statement_group.resources g) \<subseteq> set (statement_group.resources g1)"
    by blast
  from Cons.IH[OF g1(1)] obtain g' where
    "map_of (foldl (addPermission js) (addPermission js m p) ps) key = Some g'"
    "set (statement_group.actions g1) \<subseteq> set (statement_group.actions g')"
    "set (statement_group.resources g1) \<subseteq> set (statement_group.resources g')"
    by blast
  with g1 show ?case by auto
qed

lemma addPermission_adds:
  assumes "\<not> (SuggestedPermission.frequency p = 0 \<and> SuggestedPermission.severity p = Low)"
  shows "\<exists>key g. map_of (addPermission js m p) key = Some g \<and>
           SuggestedPermission.action p \<in> set (statement_group.actions g) \<and>
           SuggestedPermission.resource p \<in> set (statement_group.resources g)"
  using assms
  by (auto simp: addPermission_def Let_def update_conv' split: option.splits)

lemma foldl_addPermission_grants:
  assumes "p \<in> set ps"
    "\<not> (SuggestedPermission.frequency p = 0 \<and> SuggestedPermission.severity p = Low)"
  shows "\<exists>key g. map_of (foldl (addPermission js) m ps) key = Some g \<and>
           SuggestedPermission.action p \<in> set (statement_group.actions g) \<and>
           SuggestedPermission.resource p \<in> set (statement_group.resources g)"
  using assms(1)
proof (induction ps arbitrary: m)
  case Nil
  then show ?case by simp
next
  case (Cons q ps)
  show ?case
  proof (cases "p = q")
    case True
    from addPermission_adds[OF assms(2), of js m] obtain key g where
      g: "map_of (addPermission js m p) key = Some g"
         "SuggestedPermission.action p \<in> set (statement_group.actions g)"
         "SuggestedPermission.resource p \<in> set (statement_group.resources g)"
      by blast
    from foldl_addPermission_keeps[OF g(1), of js ps] g(2,3) True show ?thesis
      by (simp, blast)
  next
    case False
    with Cons.prems have "p \<in> set ps" by simp
    from Cons.IH[OF this, of "addPermission js m q"] show ?thesis by simp
  qed
qed


text \<open>
  C4: \<open>generateIAMPolicy\<close> drops exactly the permissions with frequency 0 and severity
  \<open>Low\<close>: the policy is the policy of the list without them, and every other permission
  of the list has its action and its resource in one statement of the policy.
\<close>

theorem policy_filter_exact:
  "generateIAMPolicy js ps =
     generateIAMPolicy js
       (filter (\<lambda>p. \<not> (SuggestedPermission.frequency p = 0 \<and> SuggestedPermission.severity p = Low)) ps)
   \<and> (\<forall>p \<in> set ps.
         \<not> (SuggestedPermission.frequency p = 0 \<and> SuggestedPermission.severity p = Low) \<longrightarrow>
         (\<exists>st \<in> set (Statement (generateIAMPolicy js ps)).
            SuggestedPermission.action p \<in> set (Action st) \<and>
            SuggestedPermission.resource p \<in> set (Resource st)))"
proof (intro conjI ballI impI)
  show "generateIAMPolicy js ps =
     generateIAMPolicy js
       (filter (\<lambda>p. \<not> (SuggestedPermission.frequency p = 0 \<and> SuggestedPermission.severity p = Low)) ps)"
    unfolding generateIAMPolicy_def
    by (subst foldl_addPermission_filter) simp
next
  fix p
  assume p: "p \<in> set ps"
    "\<not> (SuggestedPermission.frequency p = 0 \<and> SuggestedPermission.severity p = Low)"
  from foldl_addPermission_grants[OF p, of js "[]"] obtain key g where
    g: "map_of (foldl (addPermission js) [] ps) key = Some g"
       "SuggestedPermission.action p \<in> set (statement_group.actions g)"
       "SuggestedPermission.resource p \<in> set (statement_group.resources g)"
    by blast
  from g(1) have "g \<in> snd ` set (foldl (addPermission js) [] ps)"
    by (force dest: map_of_SomeD)
  then have "\<lparr>Effect = ''Allow'', Action = sort (statement_group.actions g),
              Resource = sort (statement_group.resources g),
              Condition = (case statement_group.condition g of
                  Some c \<Rightarrow> if length c > 0 then Some c else None | None \<Rightarrow> None)\<rparr>
           \<in> set (Statement (generateIAMPolicy js ps))"
    by (auto simp: generateIAMPolicy_def Let_def)
  with g(2,3) show "\<exists>st \<in> set (Statement (generateIAMPolicy js ps)).
            SuggestedPermission.action p \<in> set (Action st) \<and>
            SuggestedPermission.resource p \<in> set (Resource st)"
    by (intro bexI) auto
qed

theorem policy_filter_exact_witness:
  "\<lparr>SuggestedPermission.action = ''s3:PutObject'',
     SuggestedPermission.resource = ''arn:aws:s3:::test-bucket/*'', effect = ''Allow'',
     SuggestedPermission.condition = None, SuggestedPermission.reasoning = ''Test permission'',
     SuggestedPermission.frequency = 0, SuggestedPermission.severity = Medium\<rparr>
   \<in> set [\<lparr>SuggestedPermission.action = ''s3:GetObject'',
             SuggestedPermission.resource = ''arn:aws:s3:::test-bucket/*'', effect = ''Allow'',
             SuggestedPermission.condition = None, SuggestedPermission.reasoning = ''Test permission'',
             SuggestedPermission.frequency = 0, SuggestedPermission.severity = Low\<rparr>,
            \<lparr>SuggestedPermission.action = ''s3:PutObject'',
             SuggestedPermission.resource = ''arn:aws:s3:::test-bucket/*'', effect = ''Allow'',
             SuggestedPermission.condition = None, SuggestedPermission.reasoning = ''Test permission'',
             SuggestedPermission.frequency = 0, SuggestedPermission.severity = Medium\<rparr>]
   \<and>
   (\<exists>st \<in> set (Statement (generateIAMPolicy (\<lambda>j. ''{}'')
        [\<lparr>SuggestedPermission.action = ''s3:GetObject'',
          SuggestedPermission.resource = ''arn:aws:s3:::test-bucket/*'', effect = ''Allow'',
          SuggestedPermission.condition = None, SuggestedPermission.reasoning = ''Test permission'',
          SuggestedPermission.frequency = 0, SuggestedPermission.severity = Low\<rparr>,
         \<lparr>SuggestedPermission.action = ''s3:PutObject'',
          SuggestedPermission.resource = ''arn:aws:s3:::test-bucket/*'', effect = ''Allow'',
          SuggestedPermission.condition = None, SuggestedPermission.reasoning = ''Test permission'',
          SuggestedPermission.frequency = 0, SuggestedPermission.severity = Medium\<rparr>])).
      ''s3:PutObject'' \<in> set (Action st) \<and> ''arn:aws:s3:::test-bucket/*'' \<in> set (Resource st))
   \<and>
   Statement (generateIAMPolicy (\<lambda>j. ''{}'')
        [\<lparr>SuggestedPermission.action = ''s3:GetObject'',
          SuggestedPermission.resource = ''arn:aws:s3:::test-bucket/*'', effect = ''Allow'',
          SuggestedPermission.condition = None, SuggestedPermission.reasoning = ''Test permission'',
          SuggestedPermission.frequency = 0, SuggestedPermission.severity = Low\<rparr>,
         \<lparr>SuggestedPermission.action = ''s3:PutObject'',
          SuggestedPermission.resource = ''arn:aws:s3:::test-bucket/*'', effect = ''Allow'',
          SuggestedPermission.condition = None, SuggestedPermission.reasoning = ''Test permission'',
          SuggestedPermission.frequency = 0, SuggestedPermission.severity = Medium\<rparr>])
   = [\<lparr>Effect = ''Allow'', Action = [''s3:PutObject''],
       Resource = [''arn:aws:s3:::test-bucket/*''], Condition = None\<rparr>]"
proof -
  let ?low = "\<lparr>SuggestedPermission.action = ''s3:GetObject'',
          SuggestedPermission.resource = ''arn:aws:s3:::test-bucket/*'', effect = ''Allow'',
          SuggestedPermission.condition = None, SuggestedPermission.reasoning = ''Test permission'',
          SuggestedPermission.frequency = 0, SuggestedPermission.severity = Low\<rparr>"
  let ?med = "\<lparr>SuggestedPermission.action = ''s3:PutObject'',
          SuggestedPermission.resource = ''arn:aws:s3:::test-bucket/*'', effect = ''Allow'',
          SuggestedPermission.condition = None, SuggestedPermission.reasoning = ''Test permission'',
          SuggestedPermission.frequency = 0, SuggestedPermission.severity = Medium\<rparr>"
  let ?js = "\<lambda>j::json. ''{}''"
  have mem: "?med \<in> set [?low, ?med]" by simp
  have kept: "\<not> (SuggestedPermission.frequency ?med = 0 \<and> SuggestedPermission.severity ?med = Low)"
    by simp
  from policy_filter_exact[of ?js "[?low, ?med]"]
  have eq: "generateIAMPolicy ?js [?low, ?med] =
        generateIAMPolicy ?js
          (filter (\<lambda>p. \<not> (SuggestedPermission.frequency p = 0 \<and>
                            SuggestedPermission.severity p = Low)) [?low, ?med])"
    and all: "\<forall>p \<in> set [?low, ?med].
         \<not> (SuggestedPermission.frequency p = 0 \<and> SuggestedPermission.severity p = Low) \<longrightarrow>
         (\<exists>st \<in> set (Statement (generateIAMPolicy ?js [?low, ?med])).
            SuggestedPermission.action p \<in> set (Action st) \<and>
            SuggestedPermission.resource p \<in> set (Resource st))"
    by blast+
  from all mem kept have ex: "\<exists>st \<in> set (Statement (generateIAMPolicy ?js [?low, ?med])).
      ''s3:PutObject'' \<in> set (Action st) \<and> ''arn:aws:s3:::test-bucket/*'' \<in> set (Resource st)"
    by fastforce
  have "Statement (generateIAMPolicy ?js [?med]) =
      [\<lparr>Effect = ''Allow'', Action = [''s3:PutObject''],
        Resource = [''arn:aws:s3:::test-bucket/*''], Condition = None\<rparr>]"
    by (simp add: generateIAMPolicy_def addPermission_def Let_def)
  with eq have val: "Statement (generateIAMPolicy ?js [?low, ?med]) =
      [\<lparr>Effect = ''Allow'', Action = [''s3:PutObject''],
        Resource = [''arn:aws:s3:::test-bucket/*''], Condition = None\<rparr>]"
    by simp
  from mem ex val show ?thesis by blast
qed

text \<open>
  C8: every action and every resource of every statement of the policy is the action,
  respectively the resource, of some permission of the input list.
\<close>

theorem no_invented_grants:
  assumes "st \<in> set (Statement (generateIAMPolicy js ps))"
  shows "(\<forall>a \<in> set (Action st). \<exists>p \<in> set ps. SuggestedPermission.action p = a) \<and>
         (\<forall>r \<in> set (Resource st). \<exists>p \<in> set ps. SuggestedPermission.resource p = r)"
proof -
  from assms have "\<exists>g \<in> snd ` set (foldl (addPermission js) [] ps).
      Action st = sort (statement_group.actions g) \<and>
      Resource st = sort (statement_group.resources g)"
    by (force simp: generateIAMPolicy_def Let_def)
  then obtain g where g: "g \<in> snd ` set (foldl (addPermission js) [] ps)"
    and st: "Action st = sort (statement_group.actions g)"
            "Resource st = sort (statement_group.resources g)"
    by blast
  have "set (statement_group.actions g) \<subseteq> SuggestedPermission.action ` set ps \<and>
        set (statement_group.resources g) \<subseteq> SuggestedPermission.resource ` set ps"
    by (rule grants_foldl[where m = "[]" and js = js and ps = ps]) (use g in auto)
  with st show ?thesis by auto
qed

theorem no_invented_grants_witness:
  "\<lparr>Effect = ''Allow'', Action = [''s3:GetObject'', ''s3:PutObject''],
     Resource = [''arn:aws:s3:::test-bucket/*''], Condition = None\<rparr>
   \<in> set (Statement (generateIAMPolicy (\<lambda>j. ''{}'')
        [\<lparr>SuggestedPermission.action = ''s3:GetObject'',
          SuggestedPermission.resource = ''arn:aws:s3:::test-bucket/*'', effect = ''Allow'',
          SuggestedPermission.condition = None, SuggestedPermission.reasoning = ''Test permission'',
          SuggestedPermission.frequency = 5, SuggestedPermission.severity = High\<rparr>,
         \<lparr>SuggestedPermission.action = ''s3:PutObject'',
          SuggestedPermission.resource = ''arn:aws:s3:::test-bucket/*'', effect = ''Allow'',
          SuggestedPermission.condition = None, SuggestedPermission.reasoning = ''Test permission'',
          SuggestedPermission.frequency = 3, SuggestedPermission.severity = Medium\<rparr>]))
   \<and>
   (\<exists>p \<in> set
        [\<lparr>SuggestedPermission.action = ''s3:GetObject'',
          SuggestedPermission.resource = ''arn:aws:s3:::test-bucket/*'', effect = ''Allow'',
          SuggestedPermission.condition = None, SuggestedPermission.reasoning = ''Test permission'',
          SuggestedPermission.frequency = 5, SuggestedPermission.severity = High\<rparr>,
         \<lparr>SuggestedPermission.action = ''s3:PutObject'',
          SuggestedPermission.resource = ''arn:aws:s3:::test-bucket/*'', effect = ''Allow'',
          SuggestedPermission.condition = None, SuggestedPermission.reasoning = ''Test permission'',
          SuggestedPermission.frequency = 3, SuggestedPermission.severity = Medium\<rparr>].
      SuggestedPermission.action p = ''s3:PutObject'')
   \<and>
   (\<exists>p \<in> set
        [\<lparr>SuggestedPermission.action = ''s3:GetObject'',
          SuggestedPermission.resource = ''arn:aws:s3:::test-bucket/*'', effect = ''Allow'',
          SuggestedPermission.condition = None, SuggestedPermission.reasoning = ''Test permission'',
          SuggestedPermission.frequency = 5, SuggestedPermission.severity = High\<rparr>,
         \<lparr>SuggestedPermission.action = ''s3:PutObject'',
          SuggestedPermission.resource = ''arn:aws:s3:::test-bucket/*'', effect = ''Allow'',
          SuggestedPermission.condition = None, SuggestedPermission.reasoning = ''Test permission'',
          SuggestedPermission.frequency = 3, SuggestedPermission.severity = Medium\<rparr>].
      SuggestedPermission.resource p = ''arn:aws:s3:::test-bucket/*'')"
proof -
  let ?get = "\<lparr>SuggestedPermission.action = ''s3:GetObject'',
          SuggestedPermission.resource = ''arn:aws:s3:::test-bucket/*'', effect = ''Allow'',
          SuggestedPermission.condition = None, SuggestedPermission.reasoning = ''Test permission'',
          SuggestedPermission.frequency = 5, SuggestedPermission.severity = High\<rparr>"
  let ?put = "\<lparr>SuggestedPermission.action = ''s3:PutObject'',
          SuggestedPermission.resource = ''arn:aws:s3:::test-bucket/*'', effect = ''Allow'',
          SuggestedPermission.condition = None, SuggestedPermission.reasoning = ''Test permission'',
          SuggestedPermission.frequency = 3, SuggestedPermission.severity = Medium\<rparr>"
  let ?st = "\<lparr>Effect = ''Allow'', Action = [''s3:GetObject'', ''s3:PutObject''],
     Resource = [''arn:aws:s3:::test-bucket/*''], Condition = None\<rparr>"
  let ?js = "\<lambda>j::json. ''{}''"
  have val: "Statement (generateIAMPolicy ?js [?get, ?put]) = [?st]"
    by code_simp
  then have mem: "?st \<in> set (Statement (generateIAMPolicy ?js [?get, ?put]))"
    by simp
  from no_invented_grants[OF mem]
  have "\<exists>p \<in> set [?get, ?put]. SuggestedPermission.action p = ''s3:PutObject''"
       "\<exists>p \<in> set [?get, ?put]. SuggestedPermission.resource p = ''arn:aws:s3:::test-bucket/*''"
    by simp_all
  with mem show ?thesis by blast
qed

section \<open>CDK code generation\<close>

lemma no_permissions_text:
  "\<not> str_includes
      (join ''\<newline>'' (cdkHeader @ [''// No permissions to generate - no issues found!'']))
      ''s3:ListBucket'' \<and>
   \<not> str_includes
      (join ''\<newline>'' (cdkHeader @ [''// No permissions to generate - no issues found!'']))
      ''PolicyStatement''"
  by code_simp

text \<open>
  C10: \<open>generateCDKCode\<close> keeps a permission only if its frequency is positive or its
  severity is \<open>Critical\<close> or \<open>High\<close> (the code is the code of the list filtered so), which
  is not the filter of \<open>generateIAMPolicy\<close>: for a single permission with frequency 0 and
  severity \<open>Medium\<close> the policy has a statement with its action, and the CDK code is the
  text for "no permissions", in which neither the action nor any policy statement occurs.
\<close>

theorem cdk_filter_differs:
  "generateCDKCode JSON_pretty ps stackName =
     generateCDKCode JSON_pretty
       (filter (\<lambda>p. SuggestedPermission.frequency p > 0 \<or>
                    SuggestedPermission.severity p = Critical \<or>
                    SuggestedPermission.severity p = High) ps) stackName
   \<and> Statement (generateIAMPolicy JSON_stringify
        [\<lparr>SuggestedPermission.action = ''s3:ListBucket'',
          SuggestedPermission.resource = ''arn:aws:s3:::test-bucket'',
          effect = ''Allow'', SuggestedPermission.condition = None,
          SuggestedPermission.reasoning = ''Test'',
          SuggestedPermission.frequency = 0, SuggestedPermission.severity = Medium\<rparr>])
     = [\<lparr>Effect = ''Allow'', Action = [''s3:ListBucket''],
         Resource = [''arn:aws:s3:::test-bucket''], Condition = None\<rparr>]
   \<and> generateCDKCode JSON_pretty
        [\<lparr>SuggestedPermission.action = ''s3:ListBucket'',
          SuggestedPermission.resource = ''arn:aws:s3:::test-bucket'',
          effect = ''Allow'', SuggestedPermission.condition = None,
          SuggestedPermission.reasoning = ''Test'',
          SuggestedPermission.frequency = 0, SuggestedPermission.severity = Medium\<rparr>] stackName
     = join ''\<newline>'' (cdkHeader @ [''// No permissions to generate - no issues found!''])
   \<and> \<not> str_includes
        (generateCDKCode JSON_pretty
          [\<lparr>SuggestedPermission.action = ''s3:ListBucket'',
            SuggestedPermission.resource = ''arn:aws:s3:::test-bucket'',
            effect = ''Allow'', SuggestedPermission.condition = None,
            SuggestedPermission.reasoning = ''Test'',
            SuggestedPermission.frequency = 0, SuggestedPermission.severity = Medium\<rparr>] stackName)
        ''s3:ListBucket''
   \<and> \<not> str_includes
        (generateCDKCode JSON_pretty
          [\<lparr>SuggestedPermission.action = ''s3:ListBucket'',
            SuggestedPermission.resource = ''arn:aws:s3:::test-bucket'',
            effect = ''Allow'', SuggestedPermission.condition = None,
            SuggestedPermission.reasoning = ''Test'',
            SuggestedPermission.frequency = 0, SuggestedPermission.severity = Medium\<rparr>] stackName)
        ''PolicyStatement''"
proof -
  let ?p = "\<lparr>SuggestedPermission.action = ''s3:ListBucket'',
          SuggestedPermission.resource = ''arn:aws:s3:::test-bucket'',
          effect = ''Allow'', SuggestedPermission.condition = None,
          SuggestedPermission.reasoning = ''Test'',
          SuggestedPermission.frequency = 0, SuggestedPermission.severity = Medium\<rparr>"
  have filt: "generateCDKCode JSON_pretty ps stackName =
     generateCDKCode JSON_pretty
       (filter (\<lambda>p. SuggestedPermission.frequency p > 0 \<or>
                    SuggestedPermission.severity p = Critical \<or>
                    SuggestedPermission.severity p = High) ps) stackName"
    by (simp add: generateCDKCode_def)
  have iam: "Statement (generateIAMPolicy JSON_stringify [?p])
     = [\<lparr>Effect = ''Allow'', Action = [''s3:ListBucket''],
         Resource = [''arn:aws:s3:::test-bucket''], Condition = None\<rparr>]"
    by (simp add: generateIAMPolicy_def addPermission_def Let_def)
  have cdk: "generateCDKCode JSON_pretty [?p] stackName
     = join ''\<newline>'' (cdkHeader @ [''// No permissions to generate - no issues found!''])"
    by (simp add: generateCDKCode_def)
  from filt iam cdk no_permissions_text show ?thesis by simp
qed

section \<open>The denial parser\<close>

lemma parse_no_signature:
  assumes "FilteredLogEvent.message event = Some msg" "\<not> hasPermissionDenialPattern msg"
  shows "parsePermissionDenial JSON_parse fmt event groupName = Inr None"
  using assms
  by (cases "FilteredLogEvent.timestamp event"; cases "logStreamName event")
     (simp_all add: parsePermissionDenial_def)

lemma parse_in_range:
  assumes "\<And>ts. FilteredLogEvent.timestamp event = Some ts \<Longrightarrow>
             - 8640000000000000 \<le> ts \<and> ts \<le> 8640000000000000"
  shows "(\<exists>res. parsePermissionDenial JSON_parse fmt event groupName = Inr res) \<and>
         (parsePermissionDenial JSON_parse fmt event groupName = Inr None \<longleftrightarrow>
            (case (FilteredLogEvent.message event, FilteredLogEvent.timestamp event,
                   logStreamName event) of
               (Some msg, Some ts, Some stream) \<Rightarrow>
                 msg = [] \<or> ts = 0 \<or> stream = [] \<or> \<not> hasPermissionDenialPattern msg
             | _ \<Rightarrow> True))"
proof (cases "FilteredLogEvent.message event")
  case None
  then show ?thesis by (simp add: parsePermissionDenial_def)
next
  case msg: (Some msg)
  show ?thesis
  proof (cases "FilteredLogEvent.timestamp event")
    case None
    with msg show ?thesis by (simp add: parsePermissionDenial_def)
  next
    case ts: (Some ts)
    with assms have range: "- 8640000000000000 \<le> ts" "ts \<le> 8640000000000000" by auto
    show ?thesis
    proof (cases "logStreamName event")
      case None
      with msg ts show ?thesis by (simp add: parsePermissionDenial_def)
    next
      case stream: (Some stream)
      have "\<exists>d. textDenial fmt msg ts stream groupName = Inr d"
        using range by (simp add: textDenial_def Date_toISOString_def)
      then obtain d where d: "textDenial fmt msg ts stream groupName = Inr d" by blast
      show ?thesis
        using msg ts stream d
        by (auto simp: parsePermissionDenial_def split: sum.splits)
    qed
  qed
qed

text \<open>
  The call throws when the time stamp is outside the range of \<^verbatim>\<open>Date\<close>: the
  \<^verbatim>\<open>catch\<close> block formats the time stamp again.
\<close>

lemma parse_throws_RangeError:
  "parsePermissionDenial (\<lambda>s. None) (\<lambda>t. [])
     \<lparr>FilteredLogEvent.message = Some ''AccessDenied'',
      FilteredLogEvent.timestamp = Some 8640000000000001,
      logStreamName = Some ''test-stream''\<rparr>
     ''/aws/lambda/test-function'' = Inl RangeError"
  by code_simp

text \<open>
  C6 (as stated): the parser never throws, and a message that matches no signature is the
  only way to an absent result.  The guard at the head of \<open>parsePermissionDenial\<close> is a
  second way: a record whose message carries a signature is still rejected when its time
  stamp is 0 (or its message, time stamp or stream name is missing or empty).
\<close>

theorem parse_absent_despite_signature:
  "hasPermissionDenialPattern ''AccessDenied'' \<and>
   parsePermissionDenial (\<lambda>s. None) (\<lambda>t. ''1970-01-01T00:00:00.000Z'')
     \<lparr>FilteredLogEvent.message = Some ''AccessDenied'',
      FilteredLogEvent.timestamp = Some 0,
      logStreamName = Some ''test-stream''\<rparr>
     ''/aws/lambda/test-function'' = Inr None"
  by code_simp

text \<open>
  C6 (amended): the parser returns absent for every message that matches none of the
  signature patterns.  For every record whose time stamp is in the range of \<^verbatim>\<open>Date\<close>
  the parser does not throw, and it returns absent exactly when the message, the time stamp
  or the stream name is missing or falsy (empty string, 0) or the message matches none of
  the patterns.
\<close>

theorem parse_absent_iff:
  "(\<forall>msg. FilteredLogEvent.message event = Some msg \<and> \<not> hasPermissionDenialPattern msg \<longrightarrow>
      parsePermissionDenial JSON_parse fmt event groupName = Inr None) \<and>
   ((\<forall>ts. FilteredLogEvent.timestamp event = Some ts \<longrightarrow>
            - 8640000000000000 \<le> ts \<and> ts \<le> 8640000000000000) \<longrightarrow>
      (\<exists>res. parsePermissionDenial JSON_parse fmt event groupName = Inr res) \<and>
      (parsePermissionDenial JSON_parse fmt event groupName = Inr None \<longleftrightarrow>
         (case (FilteredLogEvent.message event, FilteredLogEvent.timestamp event,
                logStreamName event) of
            (Some msg, Some ts, Some stream) \<Rightarrow>
              msg = [] \<or> ts = 0 \<or> stream = [] \<or> \<not> hasPermissionDenialPattern msg
          | _ \<Rightarrow> True)))"
proof (intro conjI allI impI)
  fix msg
  assume "FilteredLogEvent.message event = Some msg \<and> \<not> hasPermissionDenialPattern msg"
  then show "parsePermissionDenial JSON_parse fmt event groupName = Inr None"
    by (simp add: parse_no_signature)
next
  assume r: "\<forall>ts. FilteredLogEvent.timestamp event = Some ts \<longrightarrow>
            - 8640000000000000 \<le> ts \<and> ts \<le> 8640000000000000"
  then have r': "\<And>ts. FilteredLogEvent.timestamp event = Some ts \<Longrightarrow>
             - 8640000000000000 \<le> ts \<and> ts \<le> 8640000000000000" by blast
  from parse_in_range[OF r', where JSON_parse = JSON_parse and fmt = fmt and groupName = groupName]
  show "\<exists>res. parsePermissionDenial JSON_parse fmt event groupName = Inr res" by blast
  from parse_in_range[OF r', where JSON_parse = JSON_parse and fmt = fmt and groupName = groupName]
  show "parsePermissionDenial JSON_parse fmt event groupName = Inr None \<longleftrightarrow>
         (case (FilteredLogEvent.message event, FilteredLogEvent.timestamp event,
                logStreamName event) of
            (Some msg, Some ts, Some stream) \<Rightarrow>
              msg = [] \<or> ts = 0 \<or> stream = [] \<or> \<not> hasPermissionDenialPattern msg
          | _ \<Rightarrow> True)" by blast
qed

theorem parse_absent_iff_witness:
  "\<not> hasPermissionDenialPattern ''Some random log message without permission denial'' \<and>
   parsePermissionDenial (\<lambda>s. None) (\<lambda>t. ''2024-01-01T00:00:00.000Z'')
     \<lparr>FilteredLogEvent.message = Some ''Some random log message without permission denial'',
      FilteredLogEvent.timestamp = Some 1704067200000,
      logStreamName = Some ''test-stream''\<rparr> ''/aws/lambda/test-function'' = Inr None \<and>
   hasPermissionDenialPattern ''Forbidden: Access denied to dynamodb:Query on table users'' \<and>
   parsePermissionDenial (\<lambda>s. None) (\<lambda>t. ''2024-01-01T00:00:00.000Z'')
     \<lparr>FilteredLogEvent.message = Some ''Forbidden: Access denied to dynamodb:Query on table users'',
      FilteredLogEvent.timestamp = Some 1704067200000,
      logStreamName = Some ''test-stream''\<rparr> ''/aws/lambda/test-function'' \<noteq> Inr None \<and>
   (\<exists>res. parsePermissionDenial (\<lambda>s. None) (\<lambda>t. ''2024-01-01T00:00:00.000Z'')
     \<lparr>FilteredLogEvent.message = Some ''Forbidden: Access denied to dynamodb:Query on table users'',
      FilteredLogEvent.timestamp = Some 1704067200000,
      logStreamName = Some ''test-stream''\<rparr> ''/aws/lambda/test-function'' = Inr res)"
proof -
  define e1 where "e1 =
     \<lparr>FilteredLogEvent.message = Some ''Some random log message without permission denial'',
      FilteredLogEvent.timestamp = Some (1704067200000::int),
      logStreamName = Some ''test-stream''\<rparr>"
  define e2 where "e2 =
     \<lparr>FilteredLogEvent.message = Some ''Forbidden: Access denied to dynamodb:Query on table users'',
      FilteredLogEvent.timestamp = Some (1704067200000::int),
      logStreamName = Some ''test-stream''\<rparr>"
  let ?jp = "\<lambda>s::string. None :: json option"
  let ?fmt = "\<lambda>t::int. ''2024-01-01T00:00:00.000Z''"
  let ?g = "''/aws/lambda/test-function''"
  have no: "\<not> hasPermissionDenialPattern ''Some random log message without permission denial''"
    by code_simp
  have yes: "hasPermissionDenialPattern ''Forbidden: Access denied to dynamodb:Query on table users''"
    by code_simp
  have m1: "FilteredLogEvent.message e1 = Some ''Some random log message without permission denial''"
    by (simp add: e1_def)
  from parse_absent_iff[where event = e1 and JSON_parse = ?jp and fmt = ?fmt and groupName = ?g] m1 no
  have a: "parsePermissionDenial ?jp ?fmt e1 ?g = Inr None" by blast
  have rng: "\<forall>ts. FilteredLogEvent.timestamp e2 = Some ts \<longrightarrow>
            - 8640000000000000 \<le> ts \<and> ts \<le> 8640000000000000"
    by (simp add: e2_def)
  have shape: "\<not> (case (FilteredLogEvent.message e2, FilteredLogEvent.timestamp e2,
                logStreamName e2) of
            (Some msg, Some ts, Some stream) \<Rightarrow>
              msg = [] \<or> ts = 0 \<or> stream = [] \<or> \<not> hasPermissionDenialPattern msg
          | _ \<Rightarrow> True)"
    using yes by (simp add: e2_def)
  from parse_absent_iff[where event = e2 and JSON_parse = ?jp and fmt = ?fmt and groupName = ?g] rng shape
  have b: "parsePermissionDenial ?jp ?fmt e2 ?g \<noteq> Inr None"
          "\<exists>res. parsePermissionDenial ?jp ?fmt e2 ?g = Inr res"
    by blast+
  from no a yes b show ?thesis unfolding e1_def e2_def by blast
qed

text \<open>
  C7: the message of the scenario (which is not JSON, so that \<^verbatim>\<open>JSON.parse\<close> throws on
  it), in a record with a stream name and a non-zero time stamp in the range of
  \<^verbatim>\<open>Date\<close>, parses to a denial with action \<open>s3:GetObject\<close>, resource
  \<open>arn:aws:s3:::test-bucket/file.txt\<close>, principal
  \<open>arn:aws:iam::123456789012:role/test-role\<close> and error code \<open>AccessDenied\<close>.
\<close>

theorem parse_scenario:
  assumes json: "JSON_parse ''User: arn:aws:iam::123456789012:role/test-role is not authorized to perform: s3:GetObject on resource: arn:aws:s3:::test-bucket/file.txt'' = None"
    and ev: "FilteredLogEvent.message event = Some ''User: arn:aws:iam::123456789012:role/test-role is not authorized to perform: s3:GetObject on resource: arn:aws:s3:::test-bucket/file.txt''"
      "FilteredLogEvent.timestamp event = Some ts" "logStreamName event = Some stream"
    and ok: "ts \<noteq> 0" "- 8640000000000000 \<le> ts" "ts \<le> 8640000000000000" "stream \<noteq> []"
  shows "parsePermissionDenial JSON_parse fmt event groupName =
     Inr (Some
       \<lparr>PermissionDenial.timestamp = fmt ts,
        logGroup = groupName,
        logStream = stream,
        PermissionDenial.message = ''User: arn:aws:iam::123456789012:role/test-role is not authorized to perform: s3:GetObject on resource: arn:aws:s3:::test-bucket/file.txt'',
        PermissionDenial.action = JStr ''s3:GetObject'',
        PermissionDenial.resource = JStr ''arn:aws:s3:::test-bucket/file.txt'',
        principal = JStr ''arn:aws:iam::123456789012:role/test-role'',
        errorCode = JStr ''AccessDenied'',
        sourceIp = None,
        userAgent = None\<rparr>)"
proof -
  let ?m = "''User: arn:aws:iam::123456789012:role/test-role is not authorized to perform: s3:GetObject on resource: arn:aws:s3:::test-bucket/file.txt''"
  have sig: "hasPermissionDenialPattern ?m" by code_simp
  have a: "extractActionFromText ?m = ''s3:GetObject''" by code_simp
  have r: "extractResourceFromText ?m = ''arn:aws:s3:::test-bucket/file.txt''" by code_simp
  have p: "extractPrincipalFromText ?m = ''arn:aws:iam::123456789012:role/test-role''" by code_simp
  have e: "extractErrorCodeFromText ?m = ''AccessDenied''" by code_simp
  have s: "structuredDenial JSON_parse fmt ?m ts stream groupName = Inl SyntaxError"
    using json by (simp add: structuredDenial_def)
  have t: "textDenial fmt ?m ts stream groupName = Inr
       \<lparr>PermissionDenial.timestamp = fmt ts,
        logGroup = groupName,
        logStream = stream,
        PermissionDenial.message = ?m,
        PermissionDenial.action = JStr ''s3:GetObject'',
        PermissionDenial.resource = JStr ''arn:aws:s3:::test-bucket/file.txt'',
        principal = JStr ''arn:aws:iam::123456789012:role/test-role'',
        errorCode = JStr ''AccessDenied'',
        sourceIp = None,
        userAgent = None\<rparr>"
    using ok by (simp add: textDenial_def Date_toISOString_def a r p e)
  show ?thesis
    unfolding parsePermissionDenial_def ev using ok sig by (simp add: s t)
qed

theorem parse_scenario_witness:
  "parsePermissionDenial (\<lambda>s. None) (\<lambda>t. ''2024-01-01T00:00:00.000Z'')
     \<lparr>FilteredLogEvent.message = Some ''User: arn:aws:iam::123456789012:role/test-role is not authorized to perform: s3:GetObject on resource: arn:aws:s3:::test-bucket/file.txt'',
      FilteredLogEvent.timestamp = Some 1704067200000,
      logStreamName = Some ''test-stream''\<rparr>
     ''/aws/lambda/test-function'' =
     Inr (Some
       \<lparr>PermissionDenial.timestamp = ''2024-01-01T00:00:00.000Z'',
        logGroup = ''/aws/lambda/test-function'',
        logStream = ''test-stream'',
        PermissionDenial.message = ''User: arn:aws:iam::123456789012:role/test-role is not authorized to perform: s3:GetObject on resource: arn:aws:s3:::test-bucket/file.txt'',
        PermissionDenial.action = JStr ''s3:GetObject'',
        PermissionDenial.resource = JStr ''arn:aws:s3:::test-bucket/file.txt'',
        principal = JStr ''arn:aws:iam::123456789012:role/test-role'',
        errorCode = JStr ''AccessDenied'',
        sourceIp = None,
        userAgent = None\<rparr>)"
  by (rule parse_scenario[where ts = 1704067200000 and stream = "''test-stream''"]) simp_all


end
